theory Spec2Isabelle
  imports Complex_Main "HOL-Library.Multiset" "HOL-Library.Sublist"
begin

section \<open>Hierarchical memory: entries, layers and the three-layer store\<close>

text \<open>
  The development embeds the classes \<open>MemoryEntry\<close>, \<open>MemoryLayer\<close> and
  \<open>HierarchicalMemory\<close> of the notebook cell "2.1 Memory Architecture".
  Every method becomes a function that takes the object's state and returns
  \<open>error + result\<close>: \<open>Inl\<close> is a raised exception, \<open>Inr\<close> the state (and the
  returned value, where a statement is about it) after a normal return.
\<close>

text \<open>
  The source:
  \<^verbatim>\<open>
  class MemoryEntry:
      def __init__(self, content: Any, importance: float):
          self.content = content
          self.importance = importance
          self.timestamp = datetime.now()
          self.access_count = 0

  class MemoryLayer:
      def __init__(self, capacity: int):
          self.capacity = capacity
          self.memories: List[MemoryEntry] = []

      def add(self, entry: MemoryEntry):
          if len(self.memories) >= self.capacity:
              self._evict()
          self.memories.append(entry)

      def _evict(self):
          self.memories.sort(key=lambda x: x.importance * x.access_count)
          self.memories.pop(0)

  class HierarchicalMemory:
      def __init__(self):
          self.working_memory = MemoryLayer(capacity=5)
          self.short_term = MemoryLayer(capacity=50)
          self.long_term = MemoryLayer(capacity=1000)

      def store(self, content: Any, importance: float):
          entry = MemoryEntry(content, importance)
          if importance > 0.8:
              self.working_memory.add(entry)
          elif importance > 0.5:
              self.short_term.add(entry)
          else:
              self.long_term.add(entry)
  \<close>
  Entries are never changed once constructed and no list is shared between
  layers, so objects are modelled by their values.
\<close>

subsection \<open>Python floats\<close>

text \<open>
  \<open>importance\<close> is a Python \<open>float\<close>. A float is a finite number, one of the two
  infinities, or NaN. Finite values are modelled by the real number they denote,
  and arithmetic on them is exact: rounding, overflow of a finite product and the
  sign of zero are left out (\<open>-0.0\<close> and \<open>0.0\<close> compare equal in Python as well),
  and so is the \<open>OverflowError\<close> of converting an int beyond the range of a
  float.
  The comparisons and the product with the special values follow IEEE 754 as
  Python applies it: every ordering comparison with NaN is \<open>False\<close>, and
  \<open>inf * 0\<close> is NaN.
\<close>

datatype pyfloat = Finite real | PosInf | NegInf | NaN

fun is_finite :: "pyfloat \<Rightarrow> bool" where
  "is_finite (Finite a) = True"
| "is_finite PosInf = False"
| "is_finite NegInf = False"
| "is_finite NaN = False"

text \<open>Python's \<open>a < b\<close> on floats.\<close>

fun py_lt :: "pyfloat \<Rightarrow> pyfloat \<Rightarrow> bool" where
  "py_lt (Finite a) (Finite b) = (a < b)"
| "py_lt (Finite a) PosInf = True"
| "py_lt (Finite a) NegInf = False"
| "py_lt (Finite a) NaN = False"
| "py_lt PosInf b = False"
| "py_lt NegInf (Finite b) = True"
| "py_lt NegInf PosInf = True"
| "py_lt NegInf NegInf = False"
| "py_lt NegInf NaN = False"
| "py_lt NaN b = False"

text \<open>Python's \<open>a > b\<close>, \<open>a == b\<close> and \<open>a <= b\<close> on floats.\<close>

definition py_gt :: "pyfloat \<Rightarrow> pyfloat \<Rightarrow> bool" where
  "py_gt a b = py_lt b a"

definition py_eq :: "pyfloat \<Rightarrow> pyfloat \<Rightarrow> bool" where
  "py_eq a b = (a \<noteq> NaN \<and> a = b)"

definition py_le :: "pyfloat \<Rightarrow> pyfloat \<Rightarrow> bool" where
  "py_le a b = (py_lt a b \<or> py_eq a b)"

text \<open>
  Python's \<open>x * n\<close> for a float \<open>x\<close> and an int \<open>n\<close>: the int is converted to
  a (finite) float and the floats are multiplied.
\<close>

fun float_mul_int :: "pyfloat \<Rightarrow> int \<Rightarrow> pyfloat" where
  "float_mul_int (Finite a) n = Finite (a * of_int n)"
| "float_mul_int PosInf n = (if n = 0 then NaN else if 0 < n then PosInf else NegInf)"
| "float_mul_int NegInf n = (if n = 0 then NaN else if 0 < n then NegInf else PosInf)"
| "float_mul_int NaN n = NaN"

subsection \<open>Exceptions\<close>

text \<open>
  The classes raise nothing themselves. The one exception that can leave them is
  the \<open>IndexError\<close> of \<open>list.pop(0)\<close> on an empty list.
\<close>

datatype error = IndexError

subsection \<open>MemoryEntry\<close>

text \<open>
  \<open>timestamp\<close> is the reading of \<open>datetime.now()\<close> at construction; the clock is
  outside the program, so the reading is an argument of the constructor.
\<close>

record 'a MemoryEntry =
  content :: 'a
  importance :: pyfloat
  timestamp :: nat
  access_count :: int

definition MemoryEntry_init :: "'a \<Rightarrow> pyfloat \<Rightarrow> nat \<Rightarrow> error + 'a MemoryEntry" where
  "MemoryEntry_init c imp now =
     Inr \<lparr>content = c, importance = imp, timestamp = now, access_count = 0\<rparr>"

subsection \<open>MemoryLayer\<close>

record 'a MemoryLayer =
  capacity :: int
  memories :: "'a MemoryEntry list"

definition MemoryLayer_init :: "int \<Rightarrow> error + 'a MemoryLayer" where
  "MemoryLayer_init c = Inr \<lparr>capacity = c, memories = []\<rparr>"

text \<open>The sort key of \<open>_evict\<close>: \<open>lambda x: x.importance * x.access_count\<close>.\<close>

definition score :: "'a MemoryEntry \<Rightarrow> pyfloat" where
  "score x = float_mul_int (importance x) (access_count x)"

text \<open>
  \<open>list.sort(key=...)\<close> is stable and compares keys with \<open><\<close> only. It is
  modelled by the stable insertion sort that asks the same question: an element
  moves behind a neighbour only if the neighbour's key is \<open><\<close> its own. Where
  \<open><\<close> orders the keys (no key is NaN) there is one stable sorted arrangement,
  and both produce it. Where the list is one non-descending run as CPython
  detects it (no key is \<open><\<close> the key before it), CPython leaves the list as it
  is, and so does the model (\<open>list_sort_run\<close> below); this covers the lists with
  NaN keys that appear in this development.
\<close>

fun insort_lt :: "('a \<Rightarrow> pyfloat) \<Rightarrow> 'a \<Rightarrow> 'a list \<Rightarrow> 'a list" where
  "insort_lt key x [] = [x]"
| "insort_lt key x (y # ys) =
     (if py_lt (key y) (key x) then y # insort_lt key x ys else x # y # ys)"

fun list_sort :: "('a \<Rightarrow> pyfloat) \<Rightarrow> 'a list \<Rightarrow> 'a list" where
  "list_sort key [] = []"
| "list_sort key (x # xs) = insort_lt key x (list_sort key xs)"

text \<open>\<open>list.pop(0)\<close>: the first element and the rest, \<open>IndexError\<close> on \<open>[]\<close>.\<close>

definition pop0 :: "'a list \<Rightarrow> error + ('a \<times> 'a list)" where
  "pop0 xs = (case xs of [] \<Rightarrow> Inl IndexError | x # r \<Rightarrow> Inr (x, r))"

text \<open>
  \<open>_evict\<close> sorts \<open>self.memories\<close> in place and pops its first element. The
  popped entry is dropped and the method has no \<open>return\<close>, so the caller gets
  Python's \<open>None\<close>: the first component of the result is the returned value,
  \<open>None\<close> or an entry.
\<close>

definition evict :: "'a MemoryLayer \<Rightarrow> error + ('a MemoryEntry option \<times> 'a MemoryLayer)" where
  "evict l =
     (case pop0 (list_sort score (memories l)) of
        Inl e \<Rightarrow> Inl e
      | Inr (x, r) \<Rightarrow> Inr (None, l\<lparr>memories := r\<rparr>))"

definition add :: "'a MemoryEntry \<Rightarrow> 'a MemoryLayer \<Rightarrow> error + 'a MemoryLayer" where
  "add entry l =
     (if int (length (memories l)) \<ge> capacity l then
        (case evict l of
           Inl e \<Rightarrow> Inl e
         | Inr (r, l') \<Rightarrow> Inr (l'\<lparr>memories := memories l' @ [entry]\<rparr>))
      else Inr (l\<lparr>memories := memories l @ [entry]\<rparr>))"

text \<open>A sequence of \<open>add\<close> calls; the first exception ends it.\<close>

fun adds :: "'a MemoryEntry list \<Rightarrow> 'a MemoryLayer \<Rightarrow> error + 'a MemoryLayer" where
  "adds [] l = Inr l"
| "adds (e # es) l = (case add e l of Inl err \<Rightarrow> Inl err | Inr l' \<Rightarrow> adds es l')"

text \<open>A sequence of \<open>add\<close> and \<open>_evict\<close> calls on one layer.\<close>

datatype 'a layer_op = Add "'a MemoryEntry" | Evict

fun run_ops :: "'a layer_op list \<Rightarrow> 'a MemoryLayer \<Rightarrow> error + 'a MemoryLayer" where
  "run_ops [] l = Inr l"
| "run_ops (Add e # ops) l =
     (case add e l of Inl err \<Rightarrow> Inl err | Inr l' \<Rightarrow> run_ops ops l')"
| "run_ops (Evict # ops) l =
     (case evict l of Inl err \<Rightarrow> Inl err | Inr (r, l') \<Rightarrow> run_ops ops l')"

text \<open>The entries a sequence of calls adds, in the order of the calls.\<close>

fun added :: "'a layer_op list \<Rightarrow> 'a MemoryEntry list" where
  "added [] = []"
| "added (Add e # ops) = e # added ops"
| "added (Evict # ops) = added ops"

text \<open>
  Insertion numbers. The methods never look at \<open>content\<close>, so a sequence of
  calls can be run with every added entry carrying, next to its content, the
  number of its \<open>add\<close> in the sequence (0 for the first). \<open>number_ops n\<close>
  numbers the added entries from \<open>n\<close> on, \<open>insertion_no\<close> reads the number,
  and \<open>unnumbered\<close> gives the entry back. Two entries with equal fields,
  added by two calls, differ in their numbers as the two objects differ in
  Python.
\<close>

definition numbered :: "nat \<Rightarrow> 'a MemoryEntry \<Rightarrow> (nat \<times> 'a) MemoryEntry" where
  "numbered n e = \<lparr>content = (n, content e), importance = importance e,
                    timestamp = timestamp e, access_count = access_count e\<rparr>"

definition unnumbered :: "(nat \<times> 'a) MemoryEntry \<Rightarrow> 'a MemoryEntry" where
  "unnumbered e = \<lparr>content = snd (content e), importance = importance e,
                    timestamp = timestamp e, access_count = access_count e\<rparr>"

definition insertion_no :: "(nat \<times> 'a) MemoryEntry \<Rightarrow> nat" where
  "insertion_no e = fst (content e)"

fun number_ops :: "nat \<Rightarrow> 'a layer_op list \<Rightarrow> (nat \<times> 'a) layer_op list" where
  "number_ops n [] = []"
| "number_ops n (Add e # ops) = Add (numbered n e) # number_ops (Suc n) ops"
| "number_ops n (Evict # ops) = Evict # number_ops n ops"

definition unnumbered_layer :: "(nat \<times> 'a) MemoryLayer \<Rightarrow> 'a MemoryLayer" where
  "unnumbered_layer l = \<lparr>capacity = capacity l, memories = map unnumbered (memories l)\<rparr>"

subsection \<open>HierarchicalMemory\<close>

record 'a HierarchicalMemory =
  working_memory :: "'a MemoryLayer"
  short_term :: "'a MemoryLayer"
  long_term :: "'a MemoryLayer"

definition HierarchicalMemory_init :: "error + 'a HierarchicalMemory" where
  "HierarchicalMemory_init =
     (case MemoryLayer_init 5 of
        Inl e \<Rightarrow> Inl e
      | Inr w \<Rightarrow>
          (case MemoryLayer_init 50 of
             Inl e \<Rightarrow> Inl e
           | Inr s \<Rightarrow>
               (case MemoryLayer_init 1000 of
                  Inl e \<Rightarrow> Inl e
                | Inr l \<Rightarrow> Inr \<lparr>working_memory = w, short_term = s, long_term = l\<rparr>)))"

definition store :: "'a \<Rightarrow> pyfloat \<Rightarrow> nat \<Rightarrow> 'a HierarchicalMemory \<Rightarrow> error + 'a HierarchicalMemory" where
  "store c imp now m =
     (case MemoryEntry_init c imp now of
        Inl e \<Rightarrow> Inl e
      | Inr entry \<Rightarrow>
          if py_gt imp (Finite (8 / 10)) then
            (case add entry (working_memory m) of
               Inl e \<Rightarrow> Inl e
             | Inr w \<Rightarrow> Inr (m\<lparr>working_memory := w\<rparr>))
          else if py_gt imp (Finite (5 / 10)) then
            (case add entry (short_term m) of
               Inl e \<Rightarrow> Inl e
             | Inr s \<Rightarrow> Inr (m\<lparr>short_term := s\<rparr>))
          else
            (case add entry (long_term m) of
               Inl e \<Rightarrow> Inl e
             | Inr l \<Rightarrow> Inr (m\<lparr>long_term := l\<rparr>)))"

text \<open>
  A sequence of \<open>store\<close> calls, each with its content, its importance and the
  clock reading at the call.
\<close>

fun stores :: "('a \<times> pyfloat \<times> nat) list \<Rightarrow> 'a HierarchicalMemory \<Rightarrow> error + 'a HierarchicalMemory" where
  "stores [] m = Inr m"
| "stores ((c, imp, now) # cs) m =
     (case store c imp now m of Inl err \<Rightarrow> Inl err | Inr m' \<Rightarrow> stores cs m')"

text \<open>Every layer of the store has room for at least one entry.\<close>

definition positive_caps :: "'a HierarchicalMemory \<Rightarrow> bool" where
  "positive_caps m =
     (1 \<le> capacity (working_memory m) \<and> 1 \<le> capacity (short_term m)
      \<and> 1 \<le> capacity (long_term m))"

text \<open>
  \<open>store\<close> put its entry into the named layer: the constructor returned the
  entry, \<open>add\<close> on that layer returned normally, the entry is the last element
  of that layer, and the store afterwards is the store before with that layer
  replaced (so the two other layers are as they were).
\<close>

definition lands_in_working :: "'a \<Rightarrow> pyfloat \<Rightarrow> nat \<Rightarrow> 'a HierarchicalMemory \<Rightarrow> bool" where
  "lands_in_working c imp now m =
     (case MemoryEntry_init c imp now of
        Inl e \<Rightarrow> False
      | Inr entry \<Rightarrow>
          (case add entry (working_memory m) of
             Inl e \<Rightarrow> False
           | Inr w \<Rightarrow> store c imp now m = Inr (m\<lparr>working_memory := w\<rparr>)
                      \<and> memories w \<noteq> [] \<and> last (memories w) = entry))"

definition lands_in_short_term :: "'a \<Rightarrow> pyfloat \<Rightarrow> nat \<Rightarrow> 'a HierarchicalMemory \<Rightarrow> bool" where
  "lands_in_short_term c imp now m =
     (case MemoryEntry_init c imp now of
        Inl e \<Rightarrow> False
      | Inr entry \<Rightarrow>
          (case add entry (short_term m) of
             Inl e \<Rightarrow> False
           | Inr s \<Rightarrow> store c imp now m = Inr (m\<lparr>short_term := s\<rparr>)
                      \<and> memories s \<noteq> [] \<and> last (memories s) = entry))"

definition lands_in_long_term :: "'a \<Rightarrow> pyfloat \<Rightarrow> nat \<Rightarrow> 'a HierarchicalMemory \<Rightarrow> bool" where
  "lands_in_long_term c imp now m =
     (case MemoryEntry_init c imp now of
        Inl e \<Rightarrow> False
      | Inr entry \<Rightarrow>
          (case add entry (long_term m) of
             Inl e \<Rightarrow> False
           | Inr l \<Rightarrow> store c imp now m = Inr (m\<lparr>long_term := l\<rparr>)
                      \<and> memories l \<noteq> [] \<and> last (memories l) = entry))"

text \<open>
  The layers the code's own operations produce: a layer as its constructor
  returns it, a layer after \<open>add\<close> of an entry as the entry constructor returns
  it, and a layer after \<open>_evict\<close>.
\<close>

inductive reachable_layer :: "'a MemoryLayer \<Rightarrow> bool" where
  by_init: "MemoryLayer_init c = Inr l \<Longrightarrow> reachable_layer l"
| by_add: "reachable_layer l \<Longrightarrow> MemoryEntry_init c imp now = Inr e \<Longrightarrow> add e l = Inr l'
          \<Longrightarrow> reachable_layer l'"
| by_evict: "reachable_layer l \<Longrightarrow> evict l = Inr (v, l') \<Longrightarrow> reachable_layer l'"

text \<open>
  The invariant behind the tie-break: for every score, the residents with that
  score, in list order, are a suffix of the entries with that score in the
  insertion history \<open>h\<close>. Within one score the layer is a queue.
\<close>

definition fifo_per_score :: "'a MemoryEntry list \<Rightarrow> 'a MemoryLayer \<Rightarrow> bool" where
  "fifo_per_score h l =
     (\<forall>k. suffix (filter (\<lambda>y. score y = k) (memories l)) (filter (\<lambda>y. score y = k) h))"

section \<open>Properties of the building blocks\<close>

subsection \<open>Comparisons\<close>

lemma py_lt_irrefl: "\<not> py_lt a a"
  by (cases a) auto

lemma py_le_refl: "a \<noteq> NaN \<Longrightarrow> py_le a a"
  by (simp add: py_le_def py_eq_def)

lemma py_le_iff_not_lt: "a \<noteq> NaN \<Longrightarrow> b \<noteq> NaN \<Longrightarrow> py_le a b \<longleftrightarrow> \<not> py_lt b a"
  by (cases a; cases b) (auto simp: py_le_def py_eq_def)

lemma py_le_trans: "py_le a b \<Longrightarrow> py_le b c \<Longrightarrow> py_le a c"
  by (cases a; cases b; cases c) (auto simp: py_le_def py_eq_def)

lemma py_le_not_gt: "py_le a b \<Longrightarrow> \<not> py_gt a b"
  by (cases a; cases b) (auto simp: py_le_def py_eq_def py_gt_def)

lemma py_le_gt_trans: "py_le a (Finite x) \<Longrightarrow> x \<le> y \<Longrightarrow> \<not> py_gt a (Finite y)"
  by (cases a) (auto simp: py_le_def py_eq_def py_gt_def)

subsection \<open>Sorting\<close>

lemma mset_insort_lt: "mset (insort_lt key x ys) = add_mset x (mset ys)"
  by (induction ys) auto

lemma mset_list_sort: "mset (list_sort key xs) = mset xs"
  by (induction xs) (auto simp: mset_insort_lt)

lemma set_insort_lt: "set (insort_lt key x ys) = insert x (set ys)"
  using mset_insort_lt [of key x ys] by (metis set_mset_add_mset_insert set_mset_mset)

lemma set_list_sort: "set (list_sort key xs) = set xs"
  using mset_list_sort [of key xs] by (metis set_mset_mset)

lemma length_list_sort: "length (list_sort key xs) = length xs"
  using mset_list_sort [of key xs] by (metis size_mset)

lemma list_sort_Nil_iff: "list_sort key xs = [] \<longleftrightarrow> xs = []"
  using length_list_sort [of key xs] by (metis length_0_conv)

lemma list_sort_Cons_ex: "xs \<noteq> [] \<Longrightarrow> \<exists>e r. list_sort key xs = e # r"
  by (cases "list_sort key xs") (auto simp: list_sort_Nil_iff)

lemma mset_sorted_Cons: "list_sort key xs = e # r \<Longrightarrow> mset xs = add_mset e (mset r)"
  using mset_list_sort [of key xs] by simp

text \<open>
  A list that is one non-descending run (no key is \<open><\<close> the key before it)
  is left as it is.
\<close>

lemma list_sort_run:
  "successively (\<lambda>a b. \<not> py_lt (key b) (key a)) xs \<Longrightarrow> list_sort key xs = xs"
proof (induction xs)
  case Nil
  then show ?case by simp
next
  case (Cons x xs)
  then have "list_sort key xs = xs"
    by (cases xs) auto
  with Cons.prems show ?case
    by (cases xs) auto
qed

lemma successively_pairwise:
  "(\<forall>a\<in>set xs. \<forall>b\<in>set xs. P a b) \<Longrightarrow> successively P xs"
  by (induction xs rule: induct_list012) auto

text \<open>Without NaN keys the result is ascending.\<close>

lemma sorted_insort_lt:
  assumes "sorted_wrt (\<lambda>a b. py_le (key a) (key b)) ys"
    and "key x \<noteq> NaN" and "\<forall>y\<in>set ys. key y \<noteq> NaN"
  shows "sorted_wrt (\<lambda>a b. py_le (key a) (key b)) (insort_lt key x ys)"
  using assms
proof (induction ys)
  case Nil
  then show ?case by simp
next
  case (Cons y ys)
  show ?case
  proof (cases "py_lt (key y) (key x)")
    case True
    with Cons have "py_le (key y) (key x)"
      by (simp add: py_le_def)
    with True Cons show ?thesis
      by (auto simp: set_insort_lt)
  next
    case False
    with Cons.prems have xy: "py_le (key x) (key y)"
      by (simp add: py_le_iff_not_lt)
    then have "\<forall>z\<in>set ys. py_le (key x) (key z)"
      using Cons.prems(1) by (auto intro: py_le_trans)
    with False xy Cons.prems(1) show ?thesis
      by simp
  qed
qed

lemma sorted_list_sort:
  "\<forall>x\<in>set xs. key x \<noteq> NaN \<Longrightarrow> sorted_wrt (\<lambda>a b. py_le (key a) (key b)) (list_sort key xs)"
  by (induction xs) (auto simp: sorted_insort_lt set_list_sort)

lemma sorted_head_least:
  assumes "\<forall>x\<in>set xs. key x \<noteq> NaN" and "list_sort key xs = e # r"
  shows "\<forall>x\<in>set xs. py_le (key e) (key x)"
proof -
  from sorted_list_sort [OF assms(1)] assms(2)
  have "\<forall>x\<in>set r. py_le (key e) (key x)"
    by simp
  moreover have "e \<in> set xs"
    using set_list_sort [of key xs] assms(2) by auto
  then have "py_le (key e) (key e)"
    using assms(1) by (simp add: py_le_refl)
  moreover have "set xs = insert e (set r)"
    using set_list_sort [of key xs] assms(2) by simp
  ultimately show ?thesis
    by auto
qed

lemma sorted_tail:
  assumes "\<forall>x\<in>set xs. key x \<noteq> NaN" and "list_sort key xs = e # r"
  shows "sorted_wrt (\<lambda>a b. py_le (key a) (key b)) r"
  using sorted_list_sort [OF assms(1)] assms(2) by simp

text \<open>Stability: elements with the same key keep their order.\<close>

lemma filter_insort_lt_other:
  "key x \<noteq> k \<Longrightarrow> filter (\<lambda>y. key y = k) (insort_lt key x ys) = filter (\<lambda>y. key y = k) ys"
  by (induction ys) auto

lemma filter_insort_lt_same:
  "filter (\<lambda>y. key y = key x) (insort_lt key x ys) = x # filter (\<lambda>y. key y = key x) ys"
proof (induction ys)
  case Nil
  then show ?case by simp
next
  case (Cons y ys)
  show ?case
  proof (cases "py_lt (key y) (key x)")
    case True
    then have "key y \<noteq> key x"
      using py_lt_irrefl by metis
    with True Cons show ?thesis
      by simp
  next
    case False
    then show ?thesis by simp
  qed
qed

lemma list_sort_stable:
  "filter (\<lambda>y. key y = k) (list_sort key xs) = filter (\<lambda>y. key y = k) xs"
proof (induction xs)
  case Nil
  then show ?case by simp
next
  case (Cons x xs)
  show ?case
  proof (cases "key x = k")
    case True
    with filter_insort_lt_same [of key x "list_sort key xs"] Cons show ?thesis
      by simp
  next
    case False
    with Cons show ?thesis
      by (simp add: filter_insort_lt_other)
  qed
qed

subsection \<open>Scores of entries that were never accessed\<close>

lemma score_zero_count:
  "access_count e = 0 \<Longrightarrow> score e = (if is_finite (importance e) then Finite 0 else NaN)"
  by (cases "importance e") (simp_all add: score_def)

lemma zero_counts_no_lt:
  "access_count a = 0 \<Longrightarrow> access_count b = 0 \<Longrightarrow> \<not> py_lt (score a) (score b)"
  by (cases "importance a"; cases "importance b") (simp_all add: score_def)

lemma list_sort_zero_counts:
  assumes "\<forall>e\<in>set xs. access_count e = 0"
  shows "list_sort score xs = xs"
proof (rule list_sort_run)
  from assms have "\<forall>a\<in>set xs. \<forall>b\<in>set xs. \<not> py_lt (score b) (score a)"
    by (simp add: zero_counts_no_lt)
  then show "successively (\<lambda>a b. \<not> py_lt (score b) (score a)) xs"
    by (rule successively_pairwise)
qed

subsection \<open>Eviction and add\<close>

lemma evict_pops:
  "list_sort score (memories l) = e # r \<Longrightarrow>
     pop0 (list_sort score (memories l)) = Inr (e, r) \<and> evict l = Inr (None, l\<lparr>memories := r\<rparr>)"
  by (simp add: evict_def pop0_def)

lemma evict_nonempty:
  assumes "memories l \<noteq> []"
  shows "evict l = Inr (None, l\<lparr>memories := tl (list_sort score (memories l))\<rparr>)"
proof -
  from list_sort_Cons_ex [OF assms] obtain x r where "list_sort score (memories l) = x # r"
    by blast
  then show ?thesis
    by (simp add: evict_def pop0_def)
qed

lemma evict_empty: "memories l = [] \<Longrightarrow> evict l = Inl IndexError"
  by (simp add: evict_def pop0_def)

lemma evict_set:
  assumes "evict l = Inr (v, l')"
  shows "set (memories l') \<subseteq> set (memories l) \<and> capacity l' = capacity l"
proof -
  from assms obtain e r where s: "list_sort score (memories l) = e # r" and l': "l' = l\<lparr>memories := r\<rparr>"
    by (auto simp: evict_def pop0_def split: list.splits)
  have "set (memories l) = insert e (set r)"
    using set_list_sort [of score "memories l"] s by simp
  with l' show ?thesis
    by auto
qed

lemma add_below_capacity:
  "int (length (memories l)) < capacity l \<Longrightarrow> add e l = Inr (l\<lparr>memories := memories l @ [e]\<rparr>)"
  by (simp add: add_def)

lemma add_at_capacity:
  assumes "capacity l \<le> int (length (memories l))" and "memories l \<noteq> []"
  shows "add e l = Inr (l\<lparr>memories := tl (list_sort score (memories l)) @ [e]\<rparr>)"
  using assms by (simp add: add_def evict_nonempty)

lemma add_nonpositive_capacity:
  "capacity l \<le> 0 \<Longrightarrow> memories l = [] \<Longrightarrow> add e l = Inl IndexError"
  by (simp add: add_def evict_empty)

lemma add_set:
  assumes "add e l = Inr l'"
  shows "set (memories l') \<subseteq> insert e (set (memories l)) \<and> capacity l' = capacity l"
proof (cases "capacity l \<le> int (length (memories l))")
  case True
  with assms obtain v l1 where ev: "evict l = Inr (v, l1)"
    and l': "l' = l1\<lparr>memories := memories l1 @ [e]\<rparr>"
    by (auto simp: add_def split: sum.splits)
  from evict_set [OF ev] l' show ?thesis
    by auto
next
  case False
  with assms show ?thesis
    by (auto simp: add_def)
qed

lemma add_member:
  assumes "add e l = Inr l'"
  shows "e \<in> set (memories l')"
  using assms by (auto simp: add_def split: if_splits sum.splits)

lemma add_total:
  assumes "1 \<le> capacity l"
  shows "\<exists>l'. add e l = Inr l' \<and> capacity l' = capacity l
              \<and> memories l' \<noteq> [] \<and> last (memories l') = e"
proof (cases "int (length (memories l)) < capacity l")
  case True
  then show ?thesis
    by (simp add: add_below_capacity)
next
  case False
  with assms have full: "capacity l \<le> int (length (memories l))" and ne: "memories l \<noteq> []"
    by auto
  show ?thesis
    by (simp add: add_at_capacity [OF full ne])
qed

lemma add_ok:
  assumes "1 \<le> capacity l" and "int (length (memories l)) \<le> capacity l"
  shows "\<exists>l'. add e l = Inr l' \<and> capacity l' = capacity l
              \<and> int (length (memories l')) \<le> capacity l'"
proof (cases "int (length (memories l)) < capacity l")
  case True
  then show ?thesis
    by (simp add: add_below_capacity)
next
  case False
  with assms have full: "capacity l \<le> int (length (memories l))" and ne: "memories l \<noteq> []"
    by auto
  have "length (tl (list_sort score (memories l))) = length (memories l) - 1"
    by (simp add: length_list_sort)
  with assms ne show ?thesis
    by (simp add: add_at_capacity [OF full ne])
qed

lemma adds_ok:
  assumes "1 \<le> capacity l" and "int (length (memories l)) \<le> capacity l"
  shows "\<exists>l'. adds es l = Inr l' \<and> capacity l' = capacity l
              \<and> int (length (memories l')) \<le> capacity l'"
  using assms
proof (induction es arbitrary: l)
  case Nil
  then show ?case by simp
next
  case (Cons e es)
  from add_ok [OF Cons.prems, of e] obtain l1 where
    l1: "add e l = Inr l1" "capacity l1 = capacity l" "int (length (memories l1)) \<le> capacity l1"
    by blast
  from Cons.IH [of l1] l1 Cons.prems show ?case
    by simp
qed

lemma run_ops_set:
  "run_ops ops l = Inr l' \<Longrightarrow> set (memories l') \<subseteq> set (memories l) \<union> set (added ops)"
proof (induction ops arbitrary: l)
  case Nil
  then show ?case by simp
next
  case (Cons op ops)
  show ?case
  proof (cases op)
    case (Add e)
    with Cons.prems obtain l1 where a: "add e l = Inr l1" and r: "run_ops ops l1 = Inr l'"
      by (auto split: sum.splits)
    from Cons.IH [OF r] add_set [OF a] Add show ?thesis
      by auto
  next
    case Evict
    with Cons.prems obtain v l1 where a: "evict l = Inr (v, l1)" and r: "run_ops ops l1 = Inr l'"
      by (auto split: sum.splits)
    from Cons.IH [OF r] evict_set [OF a] Evict show ?thesis
      by auto
  qed
qed

subsection \<open>Within one score a layer is a queue\<close>

lemma fifo_evict:
  assumes "fifo_per_score h l" and "evict l = Inr (v, l')"
  shows "fifo_per_score h l'"
proof -
  from assms(2) have m': "memories l' = tl (list_sort score (memories l))"
    by (auto simp: evict_def pop0_def split: list.splits)
  have "suffix (filter (\<lambda>y. score y = k) (memories l')) (filter (\<lambda>y. score y = k) h)" for k
  proof -
    have "suffix (filter (\<lambda>y. score y = k) (tl (list_sort score (memories l))))
                 (filter (\<lambda>y. score y = k) (list_sort score (memories l)))"
      by (rule filter_mono_suffix) (rule suffix_tl)
    then have "suffix (filter (\<lambda>y. score y = k) (memories l')) (filter (\<lambda>y. score y = k) (memories l))"
      by (simp add: m' list_sort_stable)
    moreover from assms(1)
    have "suffix (filter (\<lambda>y. score y = k) (memories l)) (filter (\<lambda>y. score y = k) h)"
      by (simp add: fifo_per_score_def)
    ultimately show ?thesis
      by (rule suffix_order.trans)
  qed
  then show ?thesis
    by (simp add: fifo_per_score_def)
qed

lemma fifo_append:
  assumes "fifo_per_score h l"
  shows "fifo_per_score (h @ [e]) (l\<lparr>memories := memories l @ [e]\<rparr>)"
proof -
  have "suffix (filter (\<lambda>y. score y = k) (memories l @ [e])) (filter (\<lambda>y. score y = k) (h @ [e]))" for k
  proof -
    from assms have "suffix (filter (\<lambda>y. score y = k) (memories l)) (filter (\<lambda>y. score y = k) h)"
      by (simp add: fifo_per_score_def)
    then show ?thesis
      by (auto simp: suffix_def)
  qed
  then show ?thesis
    by (simp add: fifo_per_score_def)
qed

lemma fifo_add:
  assumes "fifo_per_score h l" and "add e l = Inr l'"
  shows "fifo_per_score (h @ [e]) l'"
proof (cases "capacity l \<le> int (length (memories l))")
  case True
  with assms(2) obtain v l1 where ev: "evict l = Inr (v, l1)"
    and l': "l' = l1\<lparr>memories := memories l1 @ [e]\<rparr>"
    by (auto simp: add_def split: sum.splits)
  from fifo_evict [OF assms(1) ev] have "fifo_per_score h l1" .
  from fifo_append [OF this, of e] l' show ?thesis
    by simp
next
  case False
  with assms(2) have "l' = l\<lparr>memories := memories l @ [e]\<rparr>"
    by (simp add: add_def)
  with fifo_append [OF assms(1), of e] show ?thesis
    by simp
qed

lemma fifo_run_ops:
  assumes "fifo_per_score h l" and "run_ops ops l = Inr l'"
  shows "fifo_per_score (h @ added ops) l'"
  using assms
proof (induction ops arbitrary: h l)
  case Nil
  then show ?case by simp
next
  case (Cons op ops)
  show ?case
  proof (cases op)
    case (Add e)
    with Cons.prems(2) obtain l1 where a: "add e l = Inr l1" and r: "run_ops ops l1 = Inr l'"
      by (auto split: sum.splits)
    from Cons.IH [OF fifo_add [OF Cons.prems(1) a] r] Add show ?thesis
      by simp
  next
    case Evict
    with Cons.prems(2) obtain v l1 where a: "evict l = Inr (v, l1)" and r: "run_ops ops l1 = Inr l'"
      by (auto split: sum.splits)
    from Cons.IH [OF fifo_evict [OF Cons.prems(1) a] r] Evict show ?thesis
      by simp
  qed
qed

subsection \<open>Numbered runs\<close>

text \<open>The numbered run is the run itself: dropping the numbers commutes with every call.\<close>

lemma unnumbered_numbered: "unnumbered (numbered n e) = e"
  by (simp add: unnumbered_def numbered_def)

lemma insertion_no_numbered: "insertion_no (numbered n e) = n"
  by (simp add: insertion_no_def numbered_def)

lemma score_unnumbered: "score (unnumbered e) = score e"
  by (simp add: score_def unnumbered_def)

lemma insort_lt_map:
  assumes "\<And>x. key' (f x) = key x"
  shows "insort_lt key' (f x) (map f ys) = map f (insort_lt key x ys)"
  by (induction ys) (simp_all add: assms)

lemma list_sort_map:
  assumes "\<And>x. key' (f x) = key x"
  shows "list_sort key' (map f xs) = map f (list_sort key xs)"
  by (induction xs) (simp_all add: insort_lt_map [of key' f key, OF assms])

lemma list_sort_unnumbered:
  "list_sort score (map unnumbered xs) = map unnumbered (list_sort score xs)"
  by (rule list_sort_map) (rule score_unnumbered)

lemma evict_unnumbered:
  "evict (unnumbered_layer l) =
     (case evict l of Inl err \<Rightarrow> Inl err | Inr (v, l') \<Rightarrow> Inr (None, unnumbered_layer l'))"
  by (cases "list_sort score (memories l)")
     (simp_all add: evict_def pop0_def unnumbered_layer_def list_sort_unnumbered)

lemma add_unnumbered:
  "add (unnumbered e) (unnumbered_layer l) =
     (case add e l of Inl err \<Rightarrow> Inl err | Inr l' \<Rightarrow> Inr (unnumbered_layer l'))"
proof -
  have c: "capacity (unnumbered_layer l) = capacity l"
    "length (memories (unnumbered_layer l)) = length (memories l)"
    by (simp_all add: unnumbered_layer_def)
  have app: "(unnumbered_layer l')\<lparr>memories := memories (unnumbered_layer l') @ [unnumbered e]\<rparr>
             = unnumbered_layer (l'\<lparr>memories := memories l' @ [e]\<rparr>)" for l'
    by (simp add: unnumbered_layer_def)
  show ?thesis
  proof (cases "evict l")
    case (Inl err)
    then show ?thesis
      by (simp add: add_def c evict_unnumbered app)
  next
    case (Inr p)
    then obtain v l' where "evict l = Inr (v, l')"
      by (cases p) auto
    then show ?thesis
      by (simp add: add_def c evict_unnumbered app)
  qed
qed

lemma run_ops_unnumbered:
  "run_ops ops (unnumbered_layer l) =
     (case run_ops (number_ops n ops) l of Inl err \<Rightarrow> Inl err | Inr l' \<Rightarrow> Inr (unnumbered_layer l'))"
proof (induction ops arbitrary: n l)
  case Nil
  then show ?case by simp
next
  case (Cons op ops)
  show ?case
  proof (cases op)
    case (Add e)
    have "add e (unnumbered_layer l) =
        (case add (numbered n e) l of Inl err \<Rightarrow> Inl err | Inr l' \<Rightarrow> Inr (unnumbered_layer l'))"
      using add_unnumbered [of "numbered n e" l] by (simp add: unnumbered_numbered)
    with Add Cons.IH [of _ "Suc n"] show ?thesis
      by (simp split: sum.splits)
  next
    case Evict
    with Cons.IH [of _ n] show ?thesis
      by (simp add: evict_unnumbered split: sum.splits)
  qed
qed

lemma unnumbered_number_ops: "map unnumbered (added (number_ops n ops)) = added ops"
proof (induction ops arbitrary: n)
  case Nil
  then show ?case by simp
next
  case (Cons op ops)
  then show ?case
    by (cases op) (simp_all add: unnumbered_numbered)
qed

lemma insertion_no_number_ops:
  "map insertion_no (added (number_ops n ops)) = [n..<n + length (added ops)]"
proof (induction ops arbitrary: n)
  case Nil
  then show ?case by simp
next
  case (Cons op ops)
  show ?case
  proof (cases op)
    case (Add e)
    have "[n..<n + length (added (op # ops))] = n # [Suc n..<Suc n + length (added ops)]"
      using Add by (simp add: upt_conv_Cons del: upt_Suc)
    with Add Cons [of "Suc n"] show ?thesis
      by (simp add: insertion_no_numbered del: upt_Suc)
  next
    case Evict
    with Cons [of n] show ?thesis
      by simp
  qed
qed

lemma numbers_increase:
  "sorted_wrt (\<lambda>a b. insertion_no a < insertion_no b) (added (number_ops n ops))"
proof -
  have "sorted_wrt (<) (map insertion_no (added (number_ops n ops)))"
    by (simp add: insertion_no_number_ops)
  then show ?thesis
    by (simp add: sorted_wrt_map)
qed

lemma number_is_position:
  assumes "x \<in> set (added (number_ops 0 ops))"
  shows "insertion_no x < length (added ops) \<and> added ops ! insertion_no x = unnumbered x"
proof -
  from assms obtain i where i: "i < length (added (number_ops 0 ops))"
    and x: "added (number_ops 0 ops) ! i = x"
    by (auto simp: in_set_conv_nth)
  have len: "length (added (number_ops 0 ops)) = length (added ops)"
    using unnumbered_number_ops [of 0 ops] by (metis length_map)
  have "insertion_no x = map insertion_no (added (number_ops 0 ops)) ! i"
    using i x by simp
  also have "\<dots> = i"
    using i len by (simp add: insertion_no_number_ops)
  finally have no: "insertion_no x = i" .
  have "unnumbered x = map unnumbered (added (number_ops 0 ops)) ! i"
    using i x by simp
  also have "\<dots> = added ops ! i"
    by (simp add: unnumbered_number_ops)
  finally show ?thesis
    using no i len by simp
qed

lemma later_in_filter:
  assumes "sorted_wrt (\<lambda>a b. f a < f b) h" and "filter P h = ds @ e # rest" and "x \<in> set rest"
  shows "f e < (f x :: nat)"
proof -
  from assms(1) have "sorted_wrt (\<lambda>a b. f a < f b) (filter P h)"
    by (rule sorted_wrt_filter)
  with assms(2,3) show ?thesis
    by (simp add: sorted_wrt_append)
qed

subsection \<open>Layers the operations produce\<close>

lemma reachable_zero_counts:
  "reachable_layer l \<Longrightarrow> \<forall>e\<in>set (memories l). access_count e = 0"
proof (induction rule: reachable_layer.induct)
  case (by_init c l)
  then show ?case
    by (auto simp: MemoryLayer_init_def)
next
  case (by_add l c imp now e l')
  from by_add.hyps(2) have "access_count e = 0"
    by (auto simp: MemoryEntry_init_def)
  with add_set [OF by_add.hyps(3)] by_add.IH show ?case
    by auto
next
  case (by_evict l v l')
  with evict_set [OF by_evict.hyps(2)] show ?case
    by auto
qed

subsection \<open>The store\<close>

lemma init_value:
  "HierarchicalMemory_init = Inr \<lparr>working_memory = \<lparr>capacity = 5, memories = []\<rparr>,
                                 short_term = \<lparr>capacity = 50, memories = []\<rparr>,
                                 long_term = \<lparr>capacity = 1000, memories = []\<rparr>\<rparr>"
  by (simp add: HierarchicalMemory_init_def MemoryLayer_init_def)

lemma init_positive_caps: "HierarchicalMemory_init = Inr m0 \<Longrightarrow> positive_caps m0"
  by (auto simp: init_value positive_caps_def)

lemma init_reachable:
  assumes "HierarchicalMemory_init = Inr m0"
  shows "reachable_layer (working_memory m0) \<and> reachable_layer (short_term m0)
       \<and> reachable_layer (long_term m0)"
proof -
  from assms have "m0 = \<lparr>working_memory = \<lparr>capacity = 5, memories = []\<rparr>,
                         short_term = \<lparr>capacity = 50, memories = []\<rparr>,
                         long_term = \<lparr>capacity = 1000, memories = []\<rparr>\<rparr>"
    by (simp add: init_value)
  then show ?thesis
    by (auto intro!: reachable_layer.by_init simp: MemoryLayer_init_def)
qed

lemma store_cases:
  assumes "store c imp now m = Inr m'"
  obtains (w) w where "py_gt imp (Finite (8 / 10))"
      "add \<lparr>content = c, importance = imp, timestamp = now, access_count = 0\<rparr> (working_memory m) = Inr w"
      "m' = m\<lparr>working_memory := w\<rparr>"
    | (s) s where "\<not> py_gt imp (Finite (8 / 10))" "py_gt imp (Finite (5 / 10))"
      "add \<lparr>content = c, importance = imp, timestamp = now, access_count = 0\<rparr> (short_term m) = Inr s"
      "m' = m\<lparr>short_term := s\<rparr>"
    | (l) l where "\<not> py_gt imp (Finite (8 / 10))" "\<not> py_gt imp (Finite (5 / 10))"
      "add \<lparr>content = c, importance = imp, timestamp = now, access_count = 0\<rparr> (long_term m) = Inr l"
      "m' = m\<lparr>long_term := l\<rparr>"
  using assms by (auto simp: store_def MemoryEntry_init_def split: if_splits sum.splits)

lemma store_total:
  assumes "positive_caps m"
  shows "\<exists>m'. store c imp now m = Inr m' \<and> positive_caps m'"
proof -
  let ?e = "\<lparr>content = c, importance = imp, timestamp = now, access_count = 0\<rparr>"
  from assms have caps: "1 \<le> capacity (working_memory m)" "1 \<le> capacity (short_term m)"
    "1 \<le> capacity (long_term m)"
    by (simp_all add: positive_caps_def)
  from add_total [OF caps(1), of ?e] obtain w where
    w: "add ?e (working_memory m) = Inr w" "capacity w = capacity (working_memory m)"
    by blast
  from add_total [OF caps(2), of ?e] obtain s where
    s: "add ?e (short_term m) = Inr s" "capacity s = capacity (short_term m)"
    by blast
  from add_total [OF caps(3), of ?e] obtain l where
    l: "add ?e (long_term m) = Inr l" "capacity l = capacity (long_term m)"
    by blast
  from w s l caps show ?thesis
    by (simp add: store_def MemoryEntry_init_def positive_caps_def)
qed

lemma stores_total:
  assumes "positive_caps m"
  shows "\<exists>m'. stores cs m = Inr m' \<and> positive_caps m'"
  using assms
proof (induction cs arbitrary: m)
  case Nil
  then show ?case by simp
next
  case (Cons a cs)
  obtain c imp now where a: "a = (c, imp, now)"
    by (cases a) auto
  from store_total [OF Cons.prems, of c imp now] obtain m1 where
    "store c imp now m = Inr m1" "positive_caps m1"
    by blast
  with Cons.IH [of m1] a show ?case
    by simp
qed

lemma store_reachable:
  assumes "store c imp now m = Inr m'"
    and "reachable_layer (working_memory m)" and "reachable_layer (short_term m)"
    and "reachable_layer (long_term m)"
  shows "reachable_layer (working_memory m') \<and> reachable_layer (short_term m')
       \<and> reachable_layer (long_term m')"
proof -
  let ?e = "\<lparr>content = c, importance = imp, timestamp = now, access_count = 0\<rparr>"
  have e: "MemoryEntry_init c imp now = Inr ?e"
    by (simp add: MemoryEntry_init_def)
  from assms(1) show ?thesis
  proof (cases rule: store_cases)
    case (w w)
    from reachable_layer.by_add [OF assms(2) e w(2)] w(3) assms(3,4) show ?thesis
      by simp
  next
    case (s s)
    from reachable_layer.by_add [OF assms(3) e s(3)] s(4) assms(2,4) show ?thesis
      by simp
  next
    case (l l)
    from reachable_layer.by_add [OF assms(4) e l(3)] l(4) assms(2,3) show ?thesis
      by simp
  qed
qed

lemma stores_reachable:
  assumes "stores cs m = Inr m'"
    and "reachable_layer (working_memory m)" and "reachable_layer (short_term m)"
    and "reachable_layer (long_term m)"
  shows "reachable_layer (working_memory m') \<and> reachable_layer (short_term m')
       \<and> reachable_layer (long_term m')"
  using assms
proof (induction cs arbitrary: m)
  case Nil
  then show ?case by simp
next
  case (Cons a cs)
  obtain c imp now where a: "a = (c, imp, now)"
    by (cases a) auto
  with Cons.prems(1) obtain m1 where st: "store c imp now m = Inr m1" and r: "stores cs m1 = Inr m'"
    by (auto split: sum.splits)
  from store_reachable [OF st Cons.prems(2,3,4)] Cons.IH [OF r] show ?case
    by blast
qed

lemma store_working:
  assumes "1 \<le> capacity (working_memory m)" and "py_gt imp (Finite (8 / 10))"
  shows "lands_in_working c imp now m"
proof -
  from add_total [OF assms(1)] obtain w where
    "add \<lparr>content = c, importance = imp, timestamp = now, access_count = 0\<rparr> (working_memory m) = Inr w"
    "memories w \<noteq> []"
    "last (memories w) = \<lparr>content = c, importance = imp, timestamp = now, access_count = 0\<rparr>"
    by blast
  with assms(2) show ?thesis
    by (simp add: lands_in_working_def store_def MemoryEntry_init_def)
qed

lemma store_short_term:
  assumes "1 \<le> capacity (short_term m)"
    and "\<not> py_gt imp (Finite (8 / 10))" and "py_gt imp (Finite (5 / 10))"
  shows "lands_in_short_term c imp now m"
proof -
  from add_total [OF assms(1)] obtain s where
    "add \<lparr>content = c, importance = imp, timestamp = now, access_count = 0\<rparr> (short_term m) = Inr s"
    "memories s \<noteq> []"
    "last (memories s) = \<lparr>content = c, importance = imp, timestamp = now, access_count = 0\<rparr>"
    by blast
  with assms(2,3) show ?thesis
    by (simp add: lands_in_short_term_def store_def MemoryEntry_init_def)
qed

lemma store_long_term:
  assumes "1 \<le> capacity (long_term m)"
    and "\<not> py_gt imp (Finite (8 / 10))" and "\<not> py_gt imp (Finite (5 / 10))"
  shows "lands_in_long_term c imp now m"
proof -
  from add_total [OF assms(1)] obtain l where
    "add \<lparr>content = c, importance = imp, timestamp = now, access_count = 0\<rparr> (long_term m) = Inr l"
    "memories l \<noteq> []"
    "last (memories l) = \<lparr>content = c, importance = imp, timestamp = now, access_count = 0\<rparr>"
    by blast
  with assms(2,3) show ?thesis
    by (simp add: lands_in_long_term_def store_def MemoryEntry_init_def)
qed

section \<open>The claims\<close>

subsection \<open>C1: a layer never holds more entries than its capacity\<close>

text \<open>
  C1. A layer constructed with a capacity of at least 1 accepts every finite
  sequence of \<open>add\<close> calls (none raises), keeps its capacity, and holds at most
  \<open>capacity\<close> entries after them. The sequence is arbitrary, so the bound holds
  after every single call of it.
\<close>

theorem add_size_le_capacity:
  assumes "1 \<le> c" and "MemoryLayer_init c = Inr l0"
  shows "\<exists>l. adds es l0 = Inr l \<and> capacity l = c \<and> int (length (memories l)) \<le> capacity l"
proof -
  from assms(2) have l0: "capacity l0 = c" "memories l0 = []"
    by (auto simp: MemoryLayer_init_def)
  with assms(1) have "1 \<le> capacity l0" "int (length (memories l0)) \<le> capacity l0"
    by simp_all
  from adds_ok [OF this, of es] l0 show ?thesis
    by auto
qed

theorem add_size_le_capacity_witness:
  "(1::int) \<le> 2
   \<and> MemoryLayer_init 2 = Inr \<lparr>capacity = 2, memories = ([] :: string MemoryEntry list)\<rparr>
   \<and> (\<exists>l. adds [\<lparr>content = ''a'', importance = Finite (9 / 10), timestamp = 1, access_count = 0\<rparr>,
                  \<lparr>content = ''b'', importance = Finite (1 / 10), timestamp = 2, access_count = 0\<rparr>,
                  \<lparr>content = ''c'', importance = Finite (7 / 10), timestamp = 3, access_count = 0\<rparr>]
                 \<lparr>capacity = 2, memories = []\<rparr> = Inr l
          \<and> capacity l = 2 \<and> int (length (memories l)) \<le> capacity l)"
proof -
  have c: "(1::int) \<le> 2"
    by simp
  have i: "MemoryLayer_init 2 = Inr \<lparr>capacity = 2, memories = ([] :: string MemoryEntry list)\<rparr>"
    by (simp add: MemoryLayer_init_def)
  from add_size_le_capacity [OF c i] c i show ?thesis
    by blast
qed

subsection \<open>C2: the thresholds of store\<close>

text \<open>
  C2. On a store whose layers have room for at least one entry (the
  constructor's capacities 5, 50 and 1000 do, and no operation changes a
  capacity), \<open>store\<close> never raises and puts the new entry into one layer, which
  becomes that layer's last element while the two other layers stay as they were:
  the working memory if \<open>importance > 0.8\<close>, the short-term layer if
  \<open>0.5 < importance <= 0.8\<close>, the long-term layer if \<open>importance <= 0.5\<close>.
  In particular 0.81 lands in working memory, 0.8 in short-term and 0.5 in
  long-term; and whatever the importance is, the entry lands in one of the three.
\<close>

theorem store_routes_by_threshold:
  assumes "positive_caps m"
  shows "(py_gt imp (Finite (8 / 10)) \<longrightarrow> lands_in_working c imp now m)
       \<and> (py_gt imp (Finite (5 / 10)) \<and> py_le imp (Finite (8 / 10)) \<longrightarrow> lands_in_short_term c imp now m)
       \<and> (py_le imp (Finite (5 / 10)) \<longrightarrow> lands_in_long_term c imp now m)
       \<and> lands_in_working c (Finite (81 / 100)) now m
       \<and> lands_in_short_term c (Finite (8 / 10)) now m
       \<and> lands_in_long_term c (Finite (5 / 10)) now m
       \<and> (lands_in_working c imp now m \<or> lands_in_short_term c imp now m
          \<or> lands_in_long_term c imp now m)"
proof -
  from assms have caps: "1 \<le> capacity (working_memory m)" "1 \<le> capacity (short_term m)"
    "1 \<le> capacity (long_term m)"
    by (simp_all add: positive_caps_def)
  have a: "py_gt imp (Finite (8 / 10)) \<longrightarrow> lands_in_working c imp now m"
    using caps(1) by (simp add: store_working)
  have b: "py_gt imp (Finite (5 / 10)) \<and> py_le imp (Finite (8 / 10)) \<longrightarrow> lands_in_short_term c imp now m"
    using caps(2) by (simp add: store_short_term py_le_not_gt)
  have c: "py_le imp (Finite (5 / 10)) \<longrightarrow> lands_in_long_term c imp now m"
    using caps(3) by (auto intro!: store_long_term dest: py_le_gt_trans [where y = "8 / 10"] py_le_not_gt)
  have d: "lands_in_working c (Finite (81 / 100)) now m"
    using caps(1) by (simp add: store_working py_gt_def)
  have e: "lands_in_short_term c (Finite (8 / 10)) now m"
    using caps(2) by (simp add: store_short_term py_gt_def)
  have f: "lands_in_long_term c (Finite (5 / 10)) now m"
    using caps(3) by (simp add: store_long_term py_gt_def)
  have g: "lands_in_working c imp now m \<or> lands_in_short_term c imp now m
          \<or> lands_in_long_term c imp now m"
    using caps store_working [of m imp c now] store_short_term [of m imp c now]
      store_long_term [of m imp c now] by blast
  from a b c d e f g show ?thesis
    by blast
qed

theorem store_routes_by_threshold_witness:
  "store ''x'' (Finite (81 / 100)) 1
        \<lparr>working_memory = \<lparr>capacity = 5, memories = []\<rparr>,
         short_term = \<lparr>capacity = 50, memories = []\<rparr>,
         long_term = \<lparr>capacity = 1000, memories = []\<rparr>\<rparr>
     = Inr \<lparr>working_memory = \<lparr>capacity = 5, memories =
              [\<lparr>content = ''x'', importance = Finite (81 / 100), timestamp = 1, access_count = 0\<rparr>]\<rparr>,
            short_term = \<lparr>capacity = 50, memories = []\<rparr>,
            long_term = \<lparr>capacity = 1000, memories = []\<rparr>\<rparr>
   \<and> store ''x'' (Finite (8 / 10)) 1
        \<lparr>working_memory = \<lparr>capacity = 5, memories = []\<rparr>,
         short_term = \<lparr>capacity = 50, memories = []\<rparr>,
         long_term = \<lparr>capacity = 1000, memories = []\<rparr>\<rparr>
     = Inr \<lparr>working_memory = \<lparr>capacity = 5, memories = []\<rparr>,
            short_term = \<lparr>capacity = 50, memories =
              [\<lparr>content = ''x'', importance = Finite (8 / 10), timestamp = 1, access_count = 0\<rparr>]\<rparr>,
            long_term = \<lparr>capacity = 1000, memories = []\<rparr>\<rparr>
   \<and> store ''x'' (Finite (5 / 10)) 1
        \<lparr>working_memory = \<lparr>capacity = 5, memories = []\<rparr>,
         short_term = \<lparr>capacity = 50, memories = []\<rparr>,
         long_term = \<lparr>capacity = 1000, memories = []\<rparr>\<rparr>
     = Inr \<lparr>working_memory = \<lparr>capacity = 5, memories = []\<rparr>,
            short_term = \<lparr>capacity = 50, memories = []\<rparr>,
            long_term = \<lparr>capacity = 1000, memories =
              [\<lparr>content = ''x'', importance = Finite (5 / 10), timestamp = 1, access_count = 0\<rparr>]\<rparr>\<rparr>"
proof -
  let ?m = "\<lparr>working_memory = \<lparr>capacity = 5, memories = []\<rparr>,
            short_term = \<lparr>capacity = 50, memories = []\<rparr>,
            long_term = \<lparr>capacity = 1000, memories = ([] :: string MemoryEntry list)\<rparr>\<rparr>"
  have h: "positive_caps ?m"
    by (simp add: positive_caps_def)
  from store_routes_by_threshold [OF h, of _ "''x''" 1] show ?thesis
    by (simp add: lands_in_working_def lands_in_short_term_def lands_in_long_term_def
        MemoryEntry_init_def add_def)
qed

subsection \<open>C3: eviction removes an entry of lowest score\<close>

text \<open>
  C3, as the code has it. When a non-empty layer at capacity none of whose
  residents has a NaN score receives an entry, \<open>add\<close> sorts the residents,
  removes the first one and appends the new entry; the removed entry \<open>e\<close> is a
  resident, the other residents all stay, and no resident has a lower score
  \<open>importance * access_count\<close> than \<open>e\<close>. With residents A (importance 0.9,
  never accessed, score 0) and B (importance 0.2, accessed 5 times, score 1.0),
  adding a third entry evicts A and keeps B (the statement after the theorem).
\<close>

theorem evict_removes_lowest_score:
  assumes "memories l \<noteq> []" and "capacity l \<le> int (length (memories l))"
    and "\<forall>x\<in>set (memories l). score x \<noteq> NaN"
  shows "\<exists>e r. pop0 (list_sort score (memories l)) = Inr (e, r)
             \<and> add new l = Inr (l\<lparr>memories := r @ [new]\<rparr>)
             \<and> mset (memories l) = add_mset e (mset r)
             \<and> (\<forall>x\<in>set (memories l). py_le (score e) (score x))"
proof -
  from list_sort_Cons_ex [OF assms(1)] obtain e r where s: "list_sort score (memories l) = e # r"
    by blast
  have "pop0 (list_sort score (memories l)) = Inr (e, r)"
    using evict_pops [OF s] by simp
  moreover have "add new l = Inr (l\<lparr>memories := r @ [new]\<rparr>)"
    using add_at_capacity [OF assms(2,1)] s by simp
  moreover have "mset (memories l) = add_mset e (mset r)"
    by (rule mset_sorted_Cons [OF s])
  moreover have "\<forall>x\<in>set (memories l). py_le (score e) (score x)"
    by (rule sorted_head_least [OF assms(3) s])
  ultimately show ?thesis
    by blast
qed

theorem evict_removes_lowest_score_witness:
  "add \<lparr>content = ''C'', importance = Finite (3 / 10), timestamp = 3, access_count = 0\<rparr>
       \<lparr>capacity = 2, memories =
          [\<lparr>content = ''A'', importance = Finite (9 / 10), timestamp = 1, access_count = 0\<rparr>,
           \<lparr>content = ''B'', importance = Finite (2 / 10), timestamp = 2, access_count = 5\<rparr>]\<rparr>
     = Inr \<lparr>capacity = 2, memories =
          [\<lparr>content = ''B'', importance = Finite (2 / 10), timestamp = 2, access_count = 5\<rparr>,
           \<lparr>content = ''C'', importance = Finite (3 / 10), timestamp = 3, access_count = 0\<rparr>]\<rparr>
   \<and> py_le (score \<lparr>content = ''A'', importance = Finite (9 / 10), timestamp = 1, access_count = 0\<rparr>)
            (score \<lparr>content = ''B'', importance = Finite (2 / 10), timestamp = 2, access_count = 5\<rparr>)"
proof -
  let ?A = "\<lparr>content = ''A'', importance = Finite (9 / 10), timestamp = 1, access_count = 0\<rparr>"
  let ?B = "\<lparr>content = ''B'', importance = Finite (2 / 10), timestamp = 2, access_count = 5\<rparr>"
  let ?C = "\<lparr>content = ''C'', importance = Finite (3 / 10), timestamp = 3, access_count = 0\<rparr>"
  let ?l = "\<lparr>capacity = 2, memories = [?A, ?B]\<rparr>"
  have s: "list_sort score [?A, ?B] = [?A, ?B]"
    by (simp add: score_def)
  have h1: "memories ?l \<noteq> []"
    by simp
  have h2: "capacity ?l \<le> int (length (memories ?l))"
    by simp
  have h3: "\<forall>x\<in>set (memories ?l). score x \<noteq> NaN"
    by (simp add: score_def)
  from evict_removes_lowest_score [OF h1 h2 h3, of ?C] s show ?thesis
    by (simp add: pop0_def)
qed

text \<open>
  C3 as stated, for every layer, fails where a resident's score is NaN (an
  infinite importance times an access count of 0). The layer holds B (score
  1.0), N (importance \<open>inf\<close>, never accessed: score NaN) and C (score 0.1). No
  key is \<open><\<close> the key before it, so the sort leaves the list as it is and
  \<open>pop(0)\<close> removes B, although C's score is lower.
\<close>

theorem evict_lowest_score_counterexample:
  "add \<lparr>content = ''D'', importance = Finite (3 / 10), timestamp = 4, access_count = 0\<rparr>
       \<lparr>capacity = 3, memories =
          [\<lparr>content = ''B'', importance = Finite (2 / 10), timestamp = 1, access_count = 5\<rparr>,
           \<lparr>content = ''N'', importance = PosInf, timestamp = 2, access_count = 0\<rparr>,
           \<lparr>content = ''C'', importance = Finite (1 / 10), timestamp = 3, access_count = 1\<rparr>]\<rparr>
     = Inr \<lparr>capacity = 3, memories =
          [\<lparr>content = ''N'', importance = PosInf, timestamp = 2, access_count = 0\<rparr>,
           \<lparr>content = ''C'', importance = Finite (1 / 10), timestamp = 3, access_count = 1\<rparr>,
           \<lparr>content = ''D'', importance = Finite (3 / 10), timestamp = 4, access_count = 0\<rparr>]\<rparr>
   \<and> py_lt (score \<lparr>content = ''C'', importance = Finite (1 / 10), timestamp = 3, access_count = 1\<rparr>)
            (score \<lparr>content = ''B'', importance = Finite (2 / 10), timestamp = 1, access_count = 5\<rparr>)"
  by (simp add: add_def evict_def pop0_def score_def)

subsection \<open>C4: ties are broken by insertion order\<close>

text \<open>
  C4, as the code has it. Take a layer fresh from its constructor and any
  sequence of \<open>add\<close> and \<open>_evict\<close> calls on it that returns, where no added
  entry has a NaN score. Run the same calls with every added entry carrying its
  insertion number: that run returns too, and its layer is the layer of the
  plain run with the numbers attached (an entry with number \<open>i\<close> is the entry
  of the \<open>i\<close>-th \<open>add\<close>). If the layer is not empty, its next eviction removes
  a resident \<open>e\<close> of lowest score, and every other resident whose score equals
  that of \<open>e\<close> has a greater insertion number: among the residents that tie
  for the lowest score, the one inserted earliest goes. Entries are told apart
  by their position in the sequence, so this covers entries with equal fields.
  (An \<open>add\<close> on the layer at capacity performs exactly this eviction.) For the
  layer [A (0.9, never accessed), B (0.1, never accessed)] of capacity 2 the
  eviction removes A, and adding C leaves [B, C]; of two entries T with equal
  fields the eviction removes the one added first (the statement after the
  theorem).
\<close>

theorem evict_tie_break_insertion_order:
  assumes "MemoryLayer_init c = Inr l0" and "run_ops ops l0 = Inr l"
    and "\<forall>x\<in>set (added ops). score x \<noteq> NaN"
    and "memories l \<noteq> []"
  shows "\<exists>ln e r. run_ops (number_ops 0 ops) \<lparr>capacity = c, memories = []\<rparr> = Inr ln
             \<and> capacity ln = capacity l \<and> map unnumbered (memories ln) = memories l
             \<and> pop0 (list_sort score (memories ln)) = Inr (e, r)
             \<and> pop0 (list_sort score (memories l)) = Inr (unnumbered e, map unnumbered r)
             \<and> evict l = Inr (None, l\<lparr>memories := map unnumbered r\<rparr>)
             \<and> mset (memories l) = add_mset (unnumbered e) (mset (map unnumbered r))
             \<and> (\<forall>x\<in>set (memories l). py_le (score (unnumbered e)) (score x))
             \<and> insertion_no e < length (added ops)
             \<and> added ops ! insertion_no e = unnumbered e
             \<and> (\<forall>x\<in>set r. insertion_no x < length (added ops)
                          \<and> added ops ! insertion_no x = unnumbered x)
             \<and> (\<forall>x\<in>set r. py_eq (score x) (score e) \<longrightarrow> insertion_no e < insertion_no x)
             \<and> (capacity l \<le> int (length (memories l)) \<longrightarrow>
                  add new l = Inr (l\<lparr>memories := map unnumbered r @ [new]\<rparr>))"
proof -
  let ?start = "\<lparr>capacity = c, memories = ([] :: (nat \<times> 'a) MemoryEntry list)\<rparr>"
  let ?h = "added (number_ops 0 ops)"
  from assms(1) have l0: "l0 = unnumbered_layer ?start"
    by (simp add: MemoryLayer_init_def unnumbered_layer_def)
  with assms(2) run_ops_unnumbered [of ops ?start 0] obtain ln where
    ln: "run_ops (number_ops 0 ops) ?start = Inr ln" and l: "l = unnumbered_layer ln"
    by (auto split: sum.splits)
  from l have cap: "capacity ln = capacity l" and mem: "map unnumbered (memories ln) = memories l"
    by (simp_all add: unnumbered_layer_def)
  have "fifo_per_score [] ?start"
    by (simp add: fifo_per_score_def)
  from fifo_run_ops [OF this ln] have inv: "fifo_per_score ?h ln"
    by simp
  from run_ops_set [OF ln] have sub: "set (memories ln) \<subseteq> set ?h"
    by simp
  have "score x \<noteq> NaN" if "x \<in> set (memories ln)" for x
  proof -
    from that mem have "unnumbered x \<in> set (memories l)"
      by (metis image_eqI set_map)
    with run_ops_set [OF assms(2)] l0 have "unnumbered x \<in> set (added ops)"
      by (auto simp: unnumbered_layer_def)
    with assms(3) have "score (unnumbered x) \<noteq> NaN"
      by blast
    then show ?thesis
      by (simp add: score_unnumbered)
  qed
  then have nn: "\<forall>x\<in>set (memories ln). score x \<noteq> NaN"
    by blast
  from assms(4) mem have "memories ln \<noteq> []"
    by auto
  from list_sort_Cons_ex [OF this] obtain e r where s: "list_sort score (memories ln) = e # r"
    by blast
  have sl: "list_sort score (memories l) = unnumbered e # map unnumbered r"
    using list_sort_unnumbered [of "memories ln"] s mem by simp
  have residents: "set (memories ln) = insert e (set r)"
    using set_list_sort [of score "memories ln"] s by simp
  let ?P = "\<lambda>y. score y = score e"
  have "filter ?P (memories ln) = filter ?P (e # r)"
    using list_sort_stable [of score "score e" "memories ln"] s by simp
  then have cls: "filter ?P (memories ln) = e # filter ?P r"
    by simp
  from inv have "suffix (filter ?P (memories ln)) (filter ?P ?h)"
    by (simp add: fifo_per_score_def)
  with cls obtain ds where hist: "filter ?P ?h = ds @ e # filter ?P r"
    by (auto simp: suffix_def)
  have tie: "\<forall>x\<in>set r. py_eq (score x) (score e) \<longrightarrow> insertion_no e < insertion_no x"
  proof (intro ballI impI)
    fix x assume "x \<in> set r" and "py_eq (score x) (score e)"
    then have "x \<in> set (filter ?P r)"
      by (simp add: py_eq_def)
    from later_in_filter [OF numbers_increase hist this]
    show "insertion_no e < insertion_no x" .
  qed
  have "set (memories l) \<subseteq> set (added ops)"
    using run_ops_set [OF assms(2)] l0 by (auto simp: unnumbered_layer_def)
  with assms(3) have nnl: "\<forall>x\<in>set (memories l). score x \<noteq> NaN"
    by blast
  have least: "\<forall>x\<in>set (memories l). py_le (score (unnumbered e)) (score x)"
    by (rule sorted_head_least [OF nnl sl])
  have ms: "mset (memories l) = add_mset (unnumbered e) (mset (map unnumbered r))"
    by (rule mset_sorted_Cons [OF sl])
  have pos_e: "insertion_no e < length (added ops) \<and> added ops ! insertion_no e = unnumbered e"
    using number_is_position [of e ops] sub residents by auto
  have pos_r: "\<forall>x\<in>set r. insertion_no x < length (added ops)
                          \<and> added ops ! insertion_no x = unnumbered x"
    using number_is_position [of _ ops] sub residents by auto
  have ad: "capacity l \<le> int (length (memories l)) \<longrightarrow>
              add new l = Inr (l\<lparr>memories := map unnumbered r @ [new]\<rparr>)"
    using add_at_capacity [of l new] assms(4) sl by simp
  from ln cap mem evict_pops [OF s] evict_pops [OF sl] ms least pos_e pos_r tie ad show ?thesis
    by blast
qed

theorem evict_tie_break_insertion_order_witness:
  "run_ops (number_ops 0
       [Add \<lparr>content = ''A'', importance = Finite (9 / 10), timestamp = 1, access_count = 0\<rparr>,
        Add \<lparr>content = ''B'', importance = Finite (1 / 10), timestamp = 2, access_count = 0\<rparr>])
       \<lparr>capacity = 2, memories = []\<rparr>
     = Inr \<lparr>capacity = 2, memories =
         [\<lparr>content = (0, ''A''), importance = Finite (9 / 10), timestamp = 1, access_count = 0\<rparr>,
          \<lparr>content = (1, ''B''), importance = Finite (1 / 10), timestamp = 2, access_count = 0\<rparr>]\<rparr>
   \<and> pop0 (list_sort score
         [\<lparr>content = (0 :: nat, ''A''), importance = Finite (9 / 10), timestamp = 1, access_count = 0\<rparr>,
          \<lparr>content = (1, ''B''), importance = Finite (1 / 10), timestamp = 2, access_count = 0\<rparr>])
     = Inr (\<lparr>content = (0, ''A''), importance = Finite (9 / 10), timestamp = 1, access_count = 0\<rparr>,
         [\<lparr>content = (1, ''B''), importance = Finite (1 / 10), timestamp = 2, access_count = 0\<rparr>])
   \<and> py_eq (score \<lparr>content = (1 :: nat, ''B''), importance = Finite (1 / 10), timestamp = 2, access_count = 0\<rparr>)
           (score \<lparr>content = (0 :: nat, ''A''), importance = Finite (9 / 10), timestamp = 1, access_count = 0\<rparr>)
   \<and> add \<lparr>content = ''C'', importance = Finite (5 / 10), timestamp = 3, access_count = 0\<rparr>
         \<lparr>capacity = 2, memories =
         [\<lparr>content = ''A'', importance = Finite (9 / 10), timestamp = 1, access_count = 0\<rparr>,
          \<lparr>content = ''B'', importance = Finite (1 / 10), timestamp = 2, access_count = 0\<rparr>]\<rparr>
     = Inr \<lparr>capacity = 2, memories =
         [\<lparr>content = ''B'', importance = Finite (1 / 10), timestamp = 2, access_count = 0\<rparr>,
          \<lparr>content = ''C'', importance = Finite (5 / 10), timestamp = 3, access_count = 0\<rparr>]\<rparr>
   \<and> run_ops (number_ops 0
       [Add \<lparr>content = ''T'', importance = Finite (3 / 10), timestamp = 7, access_count = 0\<rparr>,
        Add \<lparr>content = ''T'', importance = Finite (3 / 10), timestamp = 7, access_count = 0\<rparr>])
       \<lparr>capacity = 2, memories = []\<rparr>
     = Inr \<lparr>capacity = 2, memories =
         [\<lparr>content = (0, ''T''), importance = Finite (3 / 10), timestamp = 7, access_count = 0\<rparr>,
          \<lparr>content = (1, ''T''), importance = Finite (3 / 10), timestamp = 7, access_count = 0\<rparr>]\<rparr>
   \<and> pop0 (list_sort score
         [\<lparr>content = (0 :: nat, ''T''), importance = Finite (3 / 10), timestamp = 7, access_count = 0\<rparr>,
          \<lparr>content = (1, ''T''), importance = Finite (3 / 10), timestamp = 7, access_count = 0\<rparr>])
     = Inr (\<lparr>content = (0, ''T''), importance = Finite (3 / 10), timestamp = 7, access_count = 0\<rparr>,
         [\<lparr>content = (1, ''T''), importance = Finite (3 / 10), timestamp = 7, access_count = 0\<rparr>])"
proof -
  let ?A = "\<lparr>content = ''A'', importance = Finite (9 / 10), timestamp = 1, access_count = 0\<rparr>"
  let ?B = "\<lparr>content = ''B'', importance = Finite (1 / 10), timestamp = 2, access_count = 0\<rparr>"
  let ?C = "\<lparr>content = ''C'', importance = Finite (5 / 10), timestamp = 3, access_count = 0\<rparr>"
  let ?An = "\<lparr>content = (0 :: nat, ''A''), importance = Finite (9 / 10), timestamp = 1, access_count = 0\<rparr>"
  let ?Bn = "\<lparr>content = (1 :: nat, ''B''), importance = Finite (1 / 10), timestamp = 2, access_count = 0\<rparr>"
  let ?start = "\<lparr>capacity = 2, memories = ([] :: string MemoryEntry list)\<rparr>"
  let ?full = "\<lparr>capacity = 2, memories = [?A, ?B]\<rparr>"
  have h1: "MemoryLayer_init 2 = Inr ?start"
    by (simp add: MemoryLayer_init_def)
  have h2: "run_ops [Add ?A, Add ?B] ?start = Inr ?full"
    by (simp add: add_def)
  have h3: "\<forall>x\<in>set (added [Add ?A, Add ?B]). score x \<noteq> NaN"
    by (simp add: score_def)
  have h4: "memories ?full \<noteq> []"
    by simp
  have n: "run_ops (number_ops 0 [Add ?A, Add ?B]) \<lparr>capacity = 2, memories = []\<rparr>
             = Inr \<lparr>capacity = 2, memories = [?An, ?Bn]\<rparr>"
    by (simp add: add_def numbered_def)
  have s: "list_sort score [?An, ?Bn] = [?An, ?Bn]"
    by (simp add: score_def)
  have sc: "py_eq (score ?Bn) (score ?An)"
    by (simp add: score_def py_eq_def)
  have first: "run_ops (number_ops 0 [Add ?A, Add ?B]) \<lparr>capacity = 2, memories = []\<rparr>
             = Inr \<lparr>capacity = 2, memories = [?An, ?Bn]\<rparr>
      \<and> pop0 (list_sort score [?An, ?Bn]) = Inr (?An, [?Bn])
      \<and> py_eq (score ?Bn) (score ?An)
      \<and> add ?C ?full = Inr \<lparr>capacity = 2, memories = [?B, ?C]\<rparr>"
    using evict_tie_break_insertion_order [OF h1 h2 h3 h4, of ?C] n s sc
    by (auto simp: pop0_def unnumbered_def)
  let ?T = "\<lparr>content = ''T'', importance = Finite (3 / 10), timestamp = 7, access_count = 0\<rparr>"
  let ?Ta = "\<lparr>content = (0 :: nat, ''T''), importance = Finite (3 / 10), timestamp = 7, access_count = 0\<rparr>"
  let ?Tb = "\<lparr>content = (1 :: nat, ''T''), importance = Finite (3 / 10), timestamp = 7, access_count = 0\<rparr>"
  let ?twins = "\<lparr>capacity = 2, memories = [?T, ?T]\<rparr>"
  have t2: "run_ops [Add ?T, Add ?T] ?start = Inr ?twins"
    by (simp add: add_def)
  have t3: "\<forall>x\<in>set (added [Add ?T, Add ?T]). score x \<noteq> NaN"
    by (simp add: score_def)
  have t4: "memories ?twins \<noteq> []"
    by simp
  have tn: "run_ops (number_ops 0 [Add ?T, Add ?T]) \<lparr>capacity = 2, memories = []\<rparr>
             = Inr \<lparr>capacity = 2, memories = [?Ta, ?Tb]\<rparr>"
    by (simp add: add_def numbered_def)
  have ts: "list_sort score [?Ta, ?Tb] = [?Ta, ?Tb]"
    by (simp add: score_def)
  have second: "run_ops (number_ops 0 [Add ?T, Add ?T]) \<lparr>capacity = 2, memories = []\<rparr>
             = Inr \<lparr>capacity = 2, memories = [?Ta, ?Tb]\<rparr>
      \<and> pop0 (list_sort score [?Ta, ?Tb]) = Inr (?Ta, [?Tb])"
    using evict_tie_break_insertion_order [OF h1 t2 t3 t4, of ?T] tn ts
    by (auto simp: pop0_def)
  from first second show ?thesis
    by blast
qed

text \<open>
  C4 as stated fails after a sequence of \<open>add\<close> calls that brings in an entry
  with a NaN score. The layer of capacity 4 receives B (score 1.0), N (importance
  \<open>inf\<close>, never accessed: score NaN), A and E (never accessed: score 0 each),
  then C. No key is \<open><\<close> the key before it, so the sort leaves the list as it
  is and the eviction removes B: A and E tie for the lowest score, and neither
  is evicted.
\<close>

theorem evict_tie_break_counterexample:
  "run_ops [Add \<lparr>content = ''B'', importance = Finite (2 / 10), timestamp = 1, access_count = 5\<rparr>,
            Add \<lparr>content = ''N'', importance = PosInf, timestamp = 2, access_count = 0\<rparr>,
            Add \<lparr>content = ''A'', importance = Finite (9 / 10), timestamp = 3, access_count = 0\<rparr>,
            Add \<lparr>content = ''E'', importance = Finite (1 / 10), timestamp = 4, access_count = 0\<rparr>,
            Add \<lparr>content = ''C'', importance = Finite (3 / 10), timestamp = 5, access_count = 0\<rparr>]
           \<lparr>capacity = 4, memories = []\<rparr>
     = Inr \<lparr>capacity = 4, memories =
         [\<lparr>content = ''N'', importance = PosInf, timestamp = 2, access_count = 0\<rparr>,
          \<lparr>content = ''A'', importance = Finite (9 / 10), timestamp = 3, access_count = 0\<rparr>,
          \<lparr>content = ''E'', importance = Finite (1 / 10), timestamp = 4, access_count = 0\<rparr>,
          \<lparr>content = ''C'', importance = Finite (3 / 10), timestamp = 5, access_count = 0\<rparr>]\<rparr>
   \<and> py_eq (score \<lparr>content = ''A'', importance = Finite (9 / 10), timestamp = 3, access_count = 0\<rparr>)
            (score \<lparr>content = ''E'', importance = Finite (1 / 10), timestamp = 4, access_count = 0\<rparr>)
   \<and> py_lt (score \<lparr>content = ''A'', importance = Finite (9 / 10), timestamp = 3, access_count = 0\<rparr>)
            (score \<lparr>content = ''B'', importance = Finite (2 / 10), timestamp = 1, access_count = 5\<rparr>)"
  by (simp add: add_def evict_def pop0_def score_def py_eq_def)

subsection \<open>C5: an importance that is not a finite number\<close>

text \<open>
  C5, as the code has it. Neither the entry constructor nor \<open>store\<close> checks the
  importance. On a store whose layers have room for at least one entry, \<open>store\<close>
  with an importance that is not a finite number raises nothing and stores the
  entry like any other: the constructor returns the entry with that importance,
  \<open>+inf\<close> lands in the working memory (\<open>inf > 0.8\<close>), and \<open>-inf\<close> and NaN
  land in the long-term layer (both comparisons are false); the two other layers
  stay as they were.
\<close>

theorem store_accepts_non_finite:
  assumes "positive_caps m" and "\<not> is_finite imp"
  shows "MemoryEntry_init c imp now
           = Inr \<lparr>content = c, importance = imp, timestamp = now, access_count = 0\<rparr>
       \<and> (imp = PosInf \<longrightarrow> lands_in_working c imp now m)
       \<and> (imp = NegInf \<or> imp = NaN \<longrightarrow> lands_in_long_term c imp now m)"
proof -
  from assms(1) have caps: "1 \<le> capacity (working_memory m)" "1 \<le> capacity (long_term m)"
    by (simp_all add: positive_caps_def)
  have "lands_in_working c PosInf now m"
    using caps(1) by (simp add: store_working py_gt_def)
  moreover have "lands_in_long_term c NegInf now m"
    using caps(2) by (simp add: store_long_term py_gt_def)
  moreover have "lands_in_long_term c NaN now m"
    using caps(2) by (simp add: store_long_term py_gt_def)
  ultimately show ?thesis
    by (auto simp: MemoryEntry_init_def)
qed

theorem store_accepts_non_finite_witness:
  "store ''x'' PosInf 1 \<lparr>working_memory = \<lparr>capacity = 5, memories = []\<rparr>,
                         short_term = \<lparr>capacity = 50, memories = []\<rparr>,
                         long_term = \<lparr>capacity = 1000, memories = []\<rparr>\<rparr>
     = Inr \<lparr>working_memory = \<lparr>capacity = 5, memories =
              [\<lparr>content = ''x'', importance = PosInf, timestamp = 1, access_count = 0\<rparr>]\<rparr>,
            short_term = \<lparr>capacity = 50, memories = []\<rparr>,
            long_term = \<lparr>capacity = 1000, memories = []\<rparr>\<rparr>
   \<and> store ''y'' NegInf 2 \<lparr>working_memory = \<lparr>capacity = 5, memories = []\<rparr>,
                           short_term = \<lparr>capacity = 50, memories = []\<rparr>,
                           long_term = \<lparr>capacity = 1000, memories = []\<rparr>\<rparr>
     = Inr \<lparr>working_memory = \<lparr>capacity = 5, memories = []\<rparr>,
            short_term = \<lparr>capacity = 50, memories = []\<rparr>,
            long_term = \<lparr>capacity = 1000, memories =
              [\<lparr>content = ''y'', importance = NegInf, timestamp = 2, access_count = 0\<rparr>]\<rparr>\<rparr>"
proof -
  let ?m = "\<lparr>working_memory = \<lparr>capacity = 5, memories = []\<rparr>,
            short_term = \<lparr>capacity = 50, memories = []\<rparr>,
            long_term = \<lparr>capacity = 1000, memories = ([] :: string MemoryEntry list)\<rparr>\<rparr>"
  have h1: "positive_caps ?m"
    by (simp add: positive_caps_def)
  have h2: "\<not> is_finite PosInf" and h3: "\<not> is_finite NegInf"
    by simp_all
  from store_accepts_non_finite [OF h1 h2, of "''x''" 1]
    store_accepts_non_finite [OF h1 h3, of "''y''" 2] show ?thesis
    by (simp add: lands_in_working_def lands_in_long_term_def MemoryEntry_init_def add_def)
qed

text \<open>
  C5 as stated fails: on the store as constructed, \<open>store\<close> with importance NaN
  returns normally and the long-term layer grows from no entry to one.
\<close>

theorem store_non_finite_counterexample:
  "(HierarchicalMemory_init :: error + string HierarchicalMemory)
     = Inr \<lparr>working_memory = \<lparr>capacity = 5, memories = []\<rparr>,
            short_term = \<lparr>capacity = 50, memories = []\<rparr>,
            long_term = \<lparr>capacity = 1000, memories = []\<rparr>\<rparr>
   \<and> store ''x'' NaN 1 \<lparr>working_memory = \<lparr>capacity = 5, memories = []\<rparr>,
                        short_term = \<lparr>capacity = 50, memories = []\<rparr>,
                        long_term = \<lparr>capacity = 1000, memories = []\<rparr>\<rparr>
     = Inr \<lparr>working_memory = \<lparr>capacity = 5, memories = []\<rparr>,
            short_term = \<lparr>capacity = 50, memories = []\<rparr>,
            long_term = \<lparr>capacity = 1000, memories =
              [\<lparr>content = ''x'', importance = NaN, timestamp = 1, access_count = 0\<rparr>]\<rparr>\<rparr>"
  by (simp add: HierarchicalMemory_init_def MemoryLayer_init_def store_def MemoryEntry_init_def
      py_gt_def add_def)

subsection \<open>C6: a capacity that is not positive\<close>

text \<open>
  C6, as the code has it. The constructor of a layer checks nothing: for every
  capacity, also 0 and the negative ones, it returns an empty layer with that
  capacity and raises nothing. A capacity below 1 shows only later: the first
  \<open>add\<close> on such a layer finds it "full", evicts from the empty list and ends
  in the \<open>IndexError\<close> of \<open>pop(0)\<close>; with a capacity of at least 1 the first
  \<open>add\<close> stores its entry.
\<close>

theorem MemoryLayer_init_accepts_any_capacity:
  "MemoryLayer_init c = Inr \<lparr>capacity = c, memories = ([] :: 'a MemoryEntry list)\<rparr>
   \<and> (c \<le> 0 \<longrightarrow> add (e :: 'a MemoryEntry) \<lparr>capacity = c, memories = []\<rparr> = Inl IndexError)
   \<and> (1 \<le> c \<longrightarrow> add e \<lparr>capacity = c, memories = []\<rparr> = Inr \<lparr>capacity = c, memories = [e]\<rparr>)"
  by (simp add: MemoryLayer_init_def add_nonpositive_capacity add_below_capacity)

theorem MemoryLayer_init_accepts_any_capacity_witness:
  "MemoryLayer_init 0 = Inr \<lparr>capacity = 0, memories = ([] :: string MemoryEntry list)\<rparr>
   \<and> add \<lparr>content = ''a'', importance = Finite (9 / 10), timestamp = 1, access_count = 0\<rparr>
          \<lparr>capacity = 0, memories = []\<rparr> = Inl IndexError
   \<and> add \<lparr>content = ''a'', importance = Finite (9 / 10), timestamp = 1, access_count = 0\<rparr>
          \<lparr>capacity = 2, memories = []\<rparr>
       = Inr \<lparr>capacity = 2, memories =
          [\<lparr>content = ''a'', importance = Finite (9 / 10), timestamp = 1, access_count = 0\<rparr>]\<rparr>"
  using MemoryLayer_init_accepts_any_capacity
          [of 0 "\<lparr>content = ''a'', importance = Finite (9 / 10), timestamp = 1, access_count = 0\<rparr>"]
        MemoryLayer_init_accepts_any_capacity
          [of 2 "\<lparr>content = ''a'', importance = Finite (9 / 10), timestamp = 1, access_count = 0\<rparr>"]
  by simp

text \<open>
  C6 as stated fails: constructing a layer with capacity 0 or -3 returns a
  layer.
\<close>

theorem MemoryLayer_init_counterexample:
  "MemoryLayer_init 0 = Inr \<lparr>capacity = 0, memories = ([] :: string MemoryEntry list)\<rparr>
   \<and> MemoryLayer_init (- 3) = Inr \<lparr>capacity = - 3, memories = ([] :: string MemoryEntry list)\<rparr>"
  by (simp add: MemoryLayer_init_def)

subsection \<open>C7: what eviction returns\<close>

text \<open>
  C7, as the code has it. On every non-empty layer \<open>_evict\<close> returns normally,
  removes one resident \<open>e\<close> (the first of the sorted list; the others all stay)
  and returns \<open>None\<close>: the removed entry is dropped, not handed to the caller.
\<close>

theorem evict_returns_none:
  assumes "memories l \<noteq> []"
  shows "\<exists>e r. pop0 (list_sort score (memories l)) = Inr (e, r)
             \<and> mset (memories l) = add_mset e (mset r)
             \<and> evict l = Inr (None, l\<lparr>memories := r\<rparr>)"
proof -
  from list_sort_Cons_ex [OF assms] obtain e r where s: "list_sort score (memories l) = e # r"
    by blast
  from evict_pops [OF s] mset_sorted_Cons [OF s] show ?thesis
    by blast
qed

theorem evict_returns_none_witness:
  "evict \<lparr>capacity = 3, memories =
      [\<lparr>content = ''A'', importance = Finite (9 / 10), timestamp = 1, access_count = 1\<rparr>,
       \<lparr>content = ''B'', importance = Finite (1 / 10), timestamp = 2, access_count = 1\<rparr>]\<rparr>
   = Inr (None, \<lparr>capacity = 3, memories =
      [\<lparr>content = ''A'', importance = Finite (9 / 10), timestamp = 1, access_count = 1\<rparr>]\<rparr>)"
proof -
  let ?A = "\<lparr>content = ''A'', importance = Finite (9 / 10), timestamp = 1, access_count = 1\<rparr>"
  let ?B = "\<lparr>content = ''B'', importance = Finite (1 / 10), timestamp = 2, access_count = 1\<rparr>"
  let ?l = "\<lparr>capacity = 3, memories = [?A, ?B]\<rparr>"
  have h: "memories ?l \<noteq> []"
    by simp
  have s: "list_sort score [?A, ?B] = [?B, ?A]"
    by (simp add: score_def)
  from evict_returns_none [OF h] s show ?thesis
    by (simp add: pop0_def)
qed

text \<open>
  C7 as stated fails: on the layer [A, B] the eviction removes A and returns
  \<open>None\<close>, not A.
\<close>

theorem evict_returns_entry_counterexample:
  "evict \<lparr>capacity = 2, memories =
      [\<lparr>content = ''A'', importance = Finite (9 / 10), timestamp = 1, access_count = 0\<rparr>,
       \<lparr>content = ''B'', importance = Finite (1 / 10), timestamp = 2, access_count = 0\<rparr>]\<rparr>
   = Inr (None, \<lparr>capacity = 2, memories =
      [\<lparr>content = ''B'', importance = Finite (1 / 10), timestamp = 2, access_count = 0\<rparr>]\<rparr>)"
  by (simp add: evict_def pop0_def score_def)

subsection \<open>C8: store touches one layer\<close>

text \<open>
  C8. On a store whose layers have room for at least one entry, \<open>store\<close>
  returns normally and calls \<open>add\<close> with the new entry on one layer only: that
  layer becomes what \<open>add\<close> returns, and the two other layers are as they were,
  contents and size. After the call every layer holds only entries it held
  before, or the new entry: nothing has moved from one layer to another. And
  when the new entry is a new object (no layer holds it yet), the layer it
  was added to has changed, so exactly one layer has.
\<close>

theorem store_changes_one_layer:
  assumes "positive_caps m"
  shows "\<exists>m' entry. MemoryEntry_init c imp now = Inr entry \<and> store c imp now m = Inr m'
           \<and> ((add entry (working_memory m) = Inr (working_memory m')
                 \<and> short_term m' = short_term m \<and> long_term m' = long_term m)
              \<or> (add entry (short_term m) = Inr (short_term m')
                 \<and> working_memory m' = working_memory m \<and> long_term m' = long_term m)
              \<or> (add entry (long_term m) = Inr (long_term m')
                 \<and> working_memory m' = working_memory m \<and> short_term m' = short_term m))
           \<and> set (memories (working_memory m')) \<subseteq> insert entry (set (memories (working_memory m)))
           \<and> set (memories (short_term m')) \<subseteq> insert entry (set (memories (short_term m)))
           \<and> set (memories (long_term m')) \<subseteq> insert entry (set (memories (long_term m)))
           \<and> (entry \<notin> set (memories (working_memory m)) \<union> set (memories (short_term m))
                        \<union> set (memories (long_term m)) \<longrightarrow>
                (working_memory m' \<noteq> working_memory m
                   \<and> short_term m' = short_term m \<and> long_term m' = long_term m)
              \<or> (working_memory m' = working_memory m
                   \<and> short_term m' \<noteq> short_term m \<and> long_term m' = long_term m)
              \<or> (working_memory m' = working_memory m
                   \<and> short_term m' = short_term m \<and> long_term m' \<noteq> long_term m))"
proof -
  let ?e = "\<lparr>content = c, importance = imp, timestamp = now, access_count = 0\<rparr>"
  have e: "MemoryEntry_init c imp now = Inr ?e"
    by (simp add: MemoryEntry_init_def)
  from store_total [OF assms, of c imp now] obtain m' where st: "store c imp now m = Inr m'"
    by blast
  from st show ?thesis
  proof (cases rule: store_cases)
    case (w w)
    from add_member [OF w(2)] have "?e \<notin> set (memories (working_memory m)) \<longrightarrow> w \<noteq> working_memory m"
      by auto
    with add_set [OF w(2)] w e st show ?thesis
      by auto
  next
    case (s s)
    from add_member [OF s(3)] have "?e \<notin> set (memories (short_term m)) \<longrightarrow> s \<noteq> short_term m"
      by auto
    with add_set [OF s(3)] s e st show ?thesis
      by auto
  next
    case (l l)
    from add_member [OF l(3)] have "?e \<notin> set (memories (long_term m)) \<longrightarrow> l \<noteq> long_term m"
      by auto
    with add_set [OF l(3)] l e st show ?thesis
      by auto
  qed
qed

theorem store_changes_one_layer_witness:
  "positive_caps \<lparr>working_memory = \<lparr>capacity = 5, memories = []\<rparr>,
                  short_term = \<lparr>capacity = 50, memories = []\<rparr>,
                  long_term = \<lparr>capacity = 1000, memories = ([] :: string MemoryEntry list)\<rparr>\<rparr>
   \<and> (\<exists>m'. store ''x'' (Finite (6 / 10)) 1
              \<lparr>working_memory = \<lparr>capacity = 5, memories = []\<rparr>,
               short_term = \<lparr>capacity = 50, memories = []\<rparr>,
               long_term = \<lparr>capacity = 1000, memories = []\<rparr>\<rparr> = Inr m'
          \<and> working_memory m' = \<lparr>capacity = 5, memories = []\<rparr>
          \<and> short_term m' \<noteq> \<lparr>capacity = 50, memories = []\<rparr>
          \<and> long_term m' = \<lparr>capacity = 1000, memories = []\<rparr>)"
proof -
  let ?m = "\<lparr>working_memory = \<lparr>capacity = 5, memories = []\<rparr>,
            short_term = \<lparr>capacity = 50, memories = []\<rparr>,
            long_term = \<lparr>capacity = 1000, memories = ([] :: string MemoryEntry list)\<rparr>\<rparr>"
  have h: "positive_caps ?m"
    by (simp add: positive_caps_def)
  from store_changes_one_layer [OF h, of "''x''" "Finite (6 / 10)" 1] obtain m' entry where
    st: "store ''x'' (Finite (6 / 10)) 1 ?m = Inr m'"
    by blast
  then have "m' = ?m\<lparr>short_term := \<lparr>capacity = 50, memories =
      [\<lparr>content = ''x'', importance = Finite (6 / 10), timestamp = 1, access_count = 0\<rparr>]\<rparr>\<rparr>"
    by (simp add: store_def MemoryEntry_init_def py_gt_def add_def)
  with st h show ?thesis
    by simp
qed

subsection \<open>C9: eviction leaves the list sorted\<close>

text \<open>
  C9, as the code has it. \<open>_evict\<close> sorts the list of residents in place and
  removes the first element \<open>e\<close> of the sorted list. On a non-empty layer none
  of whose residents has a NaN score, the entries that remain are the residents
  without \<open>e\<close>, in ascending order of score and no longer in insertion order.
  The last part of the statement is a layer with the distinct scores 2, 1 and 0,
  inserted in this order: after the eviction the entry with score 1 stands
  before the entry with score 2.
\<close>

theorem evict_leaves_sorted:
  assumes "memories l \<noteq> []" and "\<forall>x\<in>set (memories l). score x \<noteq> NaN"
  shows "(\<exists>e r. e # r = list_sort score (memories l)
             \<and> evict l = Inr (None, l\<lparr>memories := r\<rparr>)
             \<and> mset (memories l) = add_mset e (mset r)
             \<and> sorted_wrt (\<lambda>a b. py_le (score a) (score b)) r)
       \<and> evict \<lparr>capacity = 3, memories =
            [\<lparr>content = ''X'', importance = Finite 1, timestamp = 1, access_count = 2\<rparr>,
             \<lparr>content = ''Y'', importance = Finite 1, timestamp = 2, access_count = 1\<rparr>,
             \<lparr>content = ''Z'', importance = Finite 1, timestamp = 3, access_count = 0\<rparr>]\<rparr>
          = Inr (None, \<lparr>capacity = 3, memories =
            [\<lparr>content = ''Y'', importance = Finite 1, timestamp = 2, access_count = 1\<rparr>,
             \<lparr>content = ''X'', importance = Finite 1, timestamp = 1, access_count = 2\<rparr>]\<rparr>)"
proof
  from list_sort_Cons_ex [OF assms(1)] obtain e r where s: "list_sort score (memories l) = e # r"
    by blast
  have "evict l = Inr (None, l\<lparr>memories := r\<rparr>)"
    using evict_pops [OF s] by simp
  moreover have "mset (memories l) = add_mset e (mset r)"
    by (rule mset_sorted_Cons [OF s])
  moreover have "sorted_wrt (\<lambda>a b. py_le (score a) (score b)) r"
    by (rule sorted_tail [OF assms(2) s])
  ultimately show "\<exists>e r. e # r = list_sort score (memories l)
             \<and> evict l = Inr (None, l\<lparr>memories := r\<rparr>)
             \<and> mset (memories l) = add_mset e (mset r)
             \<and> sorted_wrt (\<lambda>a b. py_le (score a) (score b)) r"
    using s by metis
next
  show "evict \<lparr>capacity = 3, memories =
            [\<lparr>content = ''X'', importance = Finite 1, timestamp = 1, access_count = 2\<rparr>,
             \<lparr>content = ''Y'', importance = Finite 1, timestamp = 2, access_count = 1\<rparr>,
             \<lparr>content = ''Z'', importance = Finite 1, timestamp = 3, access_count = 0\<rparr>]\<rparr>
          = Inr (None, \<lparr>capacity = 3, memories =
            [\<lparr>content = ''Y'', importance = Finite 1, timestamp = 2, access_count = 1\<rparr>,
             \<lparr>content = ''X'', importance = Finite 1, timestamp = 1, access_count = 2\<rparr>]\<rparr>)"
    by (simp add: evict_def pop0_def score_def)
qed

theorem evict_leaves_sorted_witness:
  "evict \<lparr>capacity = 4, memories =
       [\<lparr>content = ''P'', importance = Finite (5 / 10), timestamp = 1, access_count = 3\<rparr>,
        \<lparr>content = ''Q'', importance = Finite (9 / 10), timestamp = 2, access_count = 1\<rparr>,
        \<lparr>content = ''R'', importance = Finite (2 / 10), timestamp = 3, access_count = 1\<rparr>]\<rparr>
   = Inr (None, \<lparr>capacity = 4, memories =
       [\<lparr>content = ''Q'', importance = Finite (9 / 10), timestamp = 2, access_count = 1\<rparr>,
        \<lparr>content = ''P'', importance = Finite (5 / 10), timestamp = 1, access_count = 3\<rparr>]\<rparr>)
   \<and> sorted_wrt (\<lambda>a b. py_le (score a) (score b))
       [\<lparr>content = ''Q'', importance = Finite (9 / 10), timestamp = 2, access_count = 1\<rparr>,
        \<lparr>content = ''P'', importance = Finite (5 / 10), timestamp = 1, access_count = 3\<rparr>]"
proof -
  let ?P = "\<lparr>content = ''P'', importance = Finite (5 / 10), timestamp = 1, access_count = 3\<rparr>"
  let ?Q = "\<lparr>content = ''Q'', importance = Finite (9 / 10), timestamp = 2, access_count = 1\<rparr>"
  let ?R = "\<lparr>content = ''R'', importance = Finite (2 / 10), timestamp = 3, access_count = 1\<rparr>"
  let ?l = "\<lparr>capacity = 4, memories = [?P, ?Q, ?R]\<rparr>"
  have h1: "memories ?l \<noteq> []"
    by simp
  have h2: "\<forall>x\<in>set (memories ?l). score x \<noteq> NaN"
    by (simp add: score_def)
  have s: "list_sort score [?P, ?Q, ?R] = [?R, ?Q, ?P]"
    by (simp add: score_def)
  from evict_leaves_sorted [OF h1 h2] s show ?thesis
    by auto
qed

text \<open>
  C9 as stated, for every eviction, fails where a resident's score is NaN. The
  layer holds Z (score 0), B (score 1.0), N (importance \<open>inf\<close>, never
  accessed: score NaN) and C (score 0.1). No key is \<open><\<close> the key before it, so
  the sort leaves the list as it is; after the eviction B stands before C
  although C's score is lower.
\<close>

theorem evict_sorted_counterexample:
  "evict \<lparr>capacity = 4, memories =
      [\<lparr>content = ''Z'', importance = Finite (5 / 10), timestamp = 1, access_count = 0\<rparr>,
       \<lparr>content = ''B'', importance = Finite (2 / 10), timestamp = 2, access_count = 5\<rparr>,
       \<lparr>content = ''N'', importance = PosInf, timestamp = 3, access_count = 0\<rparr>,
       \<lparr>content = ''C'', importance = Finite (1 / 10), timestamp = 4, access_count = 1\<rparr>]\<rparr>
   = Inr (None, \<lparr>capacity = 4, memories =
      [\<lparr>content = ''B'', importance = Finite (2 / 10), timestamp = 2, access_count = 5\<rparr>,
       \<lparr>content = ''N'', importance = PosInf, timestamp = 3, access_count = 0\<rparr>,
       \<lparr>content = ''C'', importance = Finite (1 / 10), timestamp = 4, access_count = 1\<rparr>]\<rparr>)
   \<and> py_lt (score \<lparr>content = ''C'', importance = Finite (1 / 10), timestamp = 4, access_count = 1\<rparr>)
            (score \<lparr>content = ''B'', importance = Finite (2 / 10), timestamp = 2, access_count = 5\<rparr>)"
  by (simp add: evict_def pop0_def score_def)

subsection \<open>C10: the access count stays 0\<close>

text \<open>
  C10, as the code has it. Construction, \<open>add\<close>, \<open>_evict\<close> and \<open>store\<close>
  never change an entry, and the entry constructor sets \<open>access_count\<close> to 0.
  So in every layer these operations produce, every resident has
  \<open>access_count = 0\<close>; its score is 0 when its importance is a finite number and
  NaN when it is not (\<open>inf * 0\<close> and \<open>nan * 0\<close> are NaN); no resident's score
  is \<open><\<close> another's, the sort leaves the list as it is, and an eviction removes
  the entry at the front of the list. The three layers of a store, after any
  sequence of \<open>store\<close> calls on the store as constructed (which never raises),
  are such layers.
\<close>

theorem access_count_stays_zero:
  "(reachable_layer l \<longrightarrow>
      (\<forall>e\<in>set (memories l). access_count e = 0
            \<and> score e = (if is_finite (importance e) then Finite 0 else NaN))
      \<and> (\<forall>a\<in>set (memories l). \<forall>b\<in>set (memories l). \<not> py_lt (score a) (score b))
      \<and> list_sort score (memories l) = memories l
      \<and> (memories l \<noteq> [] \<longrightarrow> evict l = Inr (None, l\<lparr>memories := tl (memories l)\<rparr>)))
   \<and> (HierarchicalMemory_init = Inr m0 \<longrightarrow>
        (\<exists>m. stores cs m0 = Inr m
            \<and> reachable_layer (working_memory m) \<and> reachable_layer (short_term m)
            \<and> reachable_layer (long_term m)))"
proof (intro conjI impI)
  assume r: "reachable_layer l"
  from reachable_zero_counts [OF r] have z: "\<forall>e\<in>set (memories l). access_count e = 0" .
  then show "\<forall>e\<in>set (memories l). access_count e = 0
            \<and> score e = (if is_finite (importance e) then Finite 0 else NaN)"
    by (simp add: score_zero_count)
  from z show "\<forall>a\<in>set (memories l). \<forall>b\<in>set (memories l). \<not> py_lt (score a) (score b)"
    by (simp add: zero_counts_no_lt)
  from z show s: "list_sort score (memories l) = memories l"
    by (rule list_sort_zero_counts)
  assume "memories l \<noteq> []"
  from evict_nonempty [OF this] s
  show "evict l = Inr (None, l\<lparr>memories := tl (memories l)\<rparr>)"
    by simp
next
  assume i: "HierarchicalMemory_init = Inr m0"
  from stores_total [OF init_positive_caps [OF i], of cs] obtain m where s: "stores cs m0 = Inr m"
    by blast
  from init_reachable [OF i] stores_reachable [OF s] s
  show "\<exists>m. stores cs m0 = Inr m
            \<and> reachable_layer (working_memory m) \<and> reachable_layer (short_term m)
            \<and> reachable_layer (long_term m)"
    by blast
qed

theorem access_count_stays_zero_witness:
  "(HierarchicalMemory_init :: error + string HierarchicalMemory)
     = Inr \<lparr>working_memory = \<lparr>capacity = 5, memories = []\<rparr>,
            short_term = \<lparr>capacity = 50, memories = []\<rparr>,
            long_term = \<lparr>capacity = 1000, memories = []\<rparr>\<rparr>
   \<and> stores [(''a'', Finite (9 / 10), 1), (''b'', Finite (85 / 100), 2)]
        \<lparr>working_memory = \<lparr>capacity = 5, memories = []\<rparr>,
         short_term = \<lparr>capacity = 50, memories = []\<rparr>,
         long_term = \<lparr>capacity = 1000, memories = []\<rparr>\<rparr>
     = Inr \<lparr>working_memory = \<lparr>capacity = 5, memories =
              [\<lparr>content = ''a'', importance = Finite (9 / 10), timestamp = 1, access_count = 0\<rparr>,
               \<lparr>content = ''b'', importance = Finite (85 / 100), timestamp = 2, access_count = 0\<rparr>]\<rparr>,
            short_term = \<lparr>capacity = 50, memories = []\<rparr>,
            long_term = \<lparr>capacity = 1000, memories = []\<rparr>\<rparr>
   \<and> reachable_layer \<lparr>capacity = 5, memories =
              [\<lparr>content = ''a'', importance = Finite (9 / 10), timestamp = 1, access_count = 0\<rparr>,
               \<lparr>content = ''b'', importance = Finite (85 / 100), timestamp = 2, access_count = 0\<rparr>]\<rparr>
   \<and> evict \<lparr>capacity = 5, memories =
              [\<lparr>content = ''a'', importance = Finite (9 / 10), timestamp = 1, access_count = 0\<rparr>,
               \<lparr>content = ''b'', importance = Finite (85 / 100), timestamp = 2, access_count = 0\<rparr>]\<rparr>
     = Inr (None, \<lparr>capacity = 5, memories =
              [\<lparr>content = ''b'', importance = Finite (85 / 100), timestamp = 2, access_count = 0\<rparr>]\<rparr>)"
proof -
  let ?a = "\<lparr>content = ''a'', importance = Finite (9 / 10), timestamp = 1, access_count = 0\<rparr>"
  let ?b = "\<lparr>content = ''b'', importance = Finite (85 / 100), timestamp = 2, access_count = 0\<rparr>"
  let ?empty = "\<lparr>working_memory = \<lparr>capacity = 5, memories = []\<rparr>,
             short_term = \<lparr>capacity = 50, memories = []\<rparr>,
             long_term = \<lparr>capacity = 1000, memories = ([] :: string MemoryEntry list)\<rparr>\<rparr>"
  let ?w = "\<lparr>capacity = 5, memories = [?a, ?b]\<rparr>"
  let ?m = "?empty\<lparr>working_memory := ?w\<rparr>"
  let ?cs = "[(''a'', Finite (9 / 10), 1), (''b'', Finite (85 / 100), 2)]"
  have h1: "HierarchicalMemory_init = Inr ?empty"
    by (simp add: HierarchicalMemory_init_def MemoryLayer_init_def)
  have h2: "stores ?cs ?empty = Inr ?m"
    by (simp add: store_def MemoryEntry_init_def py_gt_def add_def)
  from access_count_stays_zero [of ?w ?empty ?cs] h1 h2
  have "reachable_layer ?w \<and> evict ?w = Inr (None, ?w\<lparr>memories := tl (memories ?w)\<rparr>)"
    by auto
  with h1 h2 show ?thesis
    by simp
qed

text \<open>
  C10 as stated fails in one part: not every eviction score is 0. After
  \<open>store\<close> of an entry with importance \<open>+inf\<close> on the store as constructed,
  the working memory holds an entry whose score is NaN, which does not equal 0.
\<close>

theorem access_count_score_counterexample:
  "(HierarchicalMemory_init :: error + string HierarchicalMemory)
     = Inr \<lparr>working_memory = \<lparr>capacity = 5, memories = []\<rparr>,
            short_term = \<lparr>capacity = 50, memories = []\<rparr>,
            long_term = \<lparr>capacity = 1000, memories = []\<rparr>\<rparr>
   \<and> stores [(''x'', PosInf, 1)]
        \<lparr>working_memory = \<lparr>capacity = 5, memories = []\<rparr>,
         short_term = \<lparr>capacity = 50, memories = []\<rparr>,
         long_term = \<lparr>capacity = 1000, memories = []\<rparr>\<rparr>
     = Inr \<lparr>working_memory = \<lparr>capacity = 5, memories =
              [\<lparr>content = ''x'', importance = PosInf, timestamp = 1, access_count = 0\<rparr>]\<rparr>,
            short_term = \<lparr>capacity = 50, memories = []\<rparr>,
            long_term = \<lparr>capacity = 1000, memories = []\<rparr>\<rparr>
   \<and> score \<lparr>content = ''x'', importance = PosInf, timestamp = 1, access_count = 0\<rparr> = NaN
   \<and> \<not> py_eq (score \<lparr>content = ''x'', importance = PosInf, timestamp = 1, access_count = 0\<rparr>)
               (Finite 0)"
  by (simp add: HierarchicalMemory_init_def MemoryLayer_init_def store_def MemoryEntry_init_def
      py_gt_def add_def score_def py_eq_def)

end
